theory Spec2Isabelle
  imports Main "HOL-Library.Word" "HOL-Library.AList" "HOL-Library.Char_ord"
    "HOL-Library.List_Lexorder"
begin

section \<open>Go values used by the client\<close>

text \<open>
  A Go \<^verbatim>\<open>error\<close> is modelled by its message. A slice is \<open>None\<close> when it is nil and
  \<open>Some xs\<close> otherwise, since \<^verbatim>\<open>json.Marshal\<close> writes a nil slice as \<^verbatim>\<open>null\<close> and an
  empty one as \<^verbatim>\<open>[]\<close>, while \<^verbatim>\<open>len\<close> is 0 for both. Indexing out of range panics.
\<close>

datatype error = Error string

datatype panic = IndexOutOfRange nat nat

type_synonym 'a slice = "'a list option"

definition len :: "'a slice \<Rightarrow> nat" where
  "len s = (case s of None \<Rightarrow> 0 | Some xs \<Rightarrow> length xs)"

definition index :: "'a slice \<Rightarrow> nat \<Rightarrow> panic + 'a" where
  "index s i = (if i < len s then Inr (the s ! i) else Inl (IndexOutOfRange i (len s)))"

text \<open>\<^verbatim>\<open>time.Time\<close> (its location pointer is nil in the zero value) and the values
  that \<^verbatim>\<open>encoding/json\<close> stores in an \<^verbatim>\<open>interface{}\<close>.\<close>

typedecl Location

record Time =
  wall :: "64 word"
  ext :: "64 word"
  loc :: "Location option"

definition zero_Time :: Time where
  "zero_Time = \<lparr>wall = 0, ext = 0, loc = None\<rparr>"

datatype any = JNil | JBool bool | JFloat64 "64 word" | JString string
  | JArray "any list" | JObject "(string \<times> any) list"

section \<open>net/http and net/url: requests, headers, query values\<close>

record URL =
  Scheme :: string
  Opaque :: string
  Host :: string
  Path :: string
  RawPath :: string
  RawQuery :: string
  Fragment :: string

type_synonym Header = "(string \<times> string list) list"

type_synonym Values = "(string \<times> string list) list"

record Request =
  Method :: string
  URL :: URL
  Header :: Header
  Body :: "string option"

text \<open>A response as \<^verbatim>\<open>doRequest\<close> sees it: the status code and what
  \<^verbatim>\<open>ioutil.ReadAll(resp.Body)\<close> gives, the bytes or a read error.\<close>

record Response =
  StatusCode :: int
  ReadAll_Body :: "error + string"

record http_Client =
  Timeout :: int
  Do :: "Request \<Rightarrow> error + Response"

text \<open>Token characters of RFC 7230 (\<^verbatim>\<open>httpguts.IsTokenRune\<close>); a byte outside ASCII is
  never one.\<close>

definition isLower :: "char \<Rightarrow> bool" where
  "isLower c = (CHR ''a'' \<le> c \<and> c \<le> CHR ''z'')"

definition isUpper :: "char \<Rightarrow> bool" where
  "isUpper c = (CHR ''A'' \<le> c \<and> c \<le> CHR ''Z'')"

definition isDigit :: "char \<Rightarrow> bool" where
  "isDigit c = (CHR ''0'' \<le> c \<and> c \<le> CHR ''9'')"

definition isToken :: "char \<Rightarrow> bool" where
  \<open>isToken c = (isLower c \<or> isUpper c \<or> isDigit c \<or> c \<in> set ''!#$%&'' \<or> c = CHR 0x27
     \<or> c \<in> set ''*+-.^_`|~'')\<close>

definition validMethod :: "string \<Rightarrow> bool" where
  "validMethod method = (0 < length method \<and> list_all isToken method)"

fun canonical_from :: "bool \<Rightarrow> string \<Rightarrow> string" where
  "canonical_from upper [] = []"
| "canonical_from upper (c # cs) =
     (let c' = (if upper \<and> isLower c then char_of (of_char c - (32::nat))
                else if \<not> upper \<and> isUpper c then char_of (of_char c + (32::nat))
                else c)
      in c' # canonical_from (c' = CHR ''-'') cs)"

definition CanonicalMIMEHeaderKey :: "string \<Rightarrow> string" where
  "CanonicalMIMEHeaderKey s = (if list_all isToken s then canonical_from True s else s)"

definition Header_Set :: "string \<Rightarrow> string \<Rightarrow> Header \<Rightarrow> Header" where
  "Header_Set key v h = AList.update (CanonicalMIMEHeaderKey key) [v] h"

text \<open>\<^verbatim>\<open>url.Values\<close>: \<^verbatim>\<open>Add\<close> appends to the values of the key; \<^verbatim>\<open>Encode\<close>
  writes \<^verbatim>\<open>key=value\<close> pairs joined by \<^verbatim>\<open>&\<close>, keys sorted, both sides escaped as
  query components.\<close>

definition Values_Add :: "string \<Rightarrow> string \<Rightarrow> Values \<Rightarrow> Values" where
  "Values_Add key v q =
     AList.update key ((case map_of q key of None \<Rightarrow> [] | Some vs \<Rightarrow> vs) @ [v]) q"

definition upperhex :: "nat \<Rightarrow> char" where
  "upperhex n = ''0123456789ABCDEF'' ! (n mod 16)"

definition shouldEscape :: "char \<Rightarrow> bool" where
  "shouldEscape c = (\<not> (isLower c \<or> isUpper c \<or> isDigit c \<or> c \<in> set ''-_.~''))"

definition QueryEscape :: "string \<Rightarrow> string" where
  "QueryEscape s = concat (map (\<lambda>c.
       if c = CHR '' '' then ''+''
       else if shouldEscape c
         then [CHR ''%'', upperhex (of_char c div 16), upperhex (of_char c mod 16)]
       else [c]) s)"

definition write_pair :: "string \<Rightarrow> string \<Rightarrow> string \<Rightarrow> string" where
  "write_pair keyEscaped buf v =
     (if 0 < length buf then buf @ ''&'' else buf) @ keyEscaped @ ''='' @ QueryEscape v"

definition Values_Encode :: "Values \<Rightarrow> string" where
  "Values_Encode q =
     foldl (\<lambda>buf k. foldl (write_pair (QueryEscape k)) buf
                       (case map_of q k of None \<Rightarrow> [] | Some vs \<Rightarrow> vs))
       [] (sort (remdups (map fst q)))"

section \<open>encoding/json: writing values\<close>

text \<open>
  \<^verbatim>\<open>json.Marshal\<close> escapes, inside a string, the quote, the backslash, the control
  characters, the HTML characters \<^verbatim>\<open><\<close>, \<^verbatim>\<open>>\<close>, \<^verbatim>\<open>&\<close>, the line separators U+2028 and
  U+2029, and replaces each byte that is not valid UTF-8 by the escape of U+FFFD. The short
  forms for backspace and form feed are those of Go 1.22 and later.
\<close>

definition RuneError :: nat where
  "RuneError = 0xFFFD"

definition DecodeRune :: "string \<Rightarrow> nat \<times> nat" where
  "DecodeRune p =
     (case p of [] \<Rightarrow> (RuneError, 0)
      | c0 # _ \<Rightarrow>
        let p0 = (of_char c0 :: nat) in
        if p0 < 0x80 then (p0, 1)
        else if p0 < 0xC2 \<or> 0xF5 \<le> p0 then (RuneError, 1)
        else
          let sz = (if p0 < 0xE0 then 2 else if p0 < 0xF0 then 3 else (4::nat));
              lo = (if p0 = 0xE0 then 0xA0 else if p0 = 0xF0 then 0x90 else (0x80::nat));
              hi = (if p0 = 0xED then 0x9F else if p0 = 0xF4 then 0x8F else (0xBF::nat))
          in
          if length p < sz then (RuneError, 1)
          else
            let b1 = (of_char (p ! 1) :: nat) in
            if b1 < lo \<or> hi < b1 then (RuneError, 1)
            else if sz \<le> 2 then ((p0 mod 32) * 64 + b1 mod 64, 2)
            else
              let b2 = (of_char (p ! 2) :: nat) in
              if b2 < 0x80 \<or> 0xBF < b2 then (RuneError, 1)
              else if sz \<le> 3 then ((p0 mod 16) * 4096 + (b1 mod 64) * 64 + b2 mod 64, 3)
              else
                let b3 = (of_char (p ! 3) :: nat) in
                if b3 < 0x80 \<or> 0xBF < b3 then (RuneError, 1)
                else ((p0 mod 8) * 262144 + (b1 mod 64) * 4096 + (b2 mod 64) * 64
                        + b3 mod 64, 4))"

definition lowerhex :: "nat \<Rightarrow> char" where
  "lowerhex n = ''0123456789abcdef'' ! (n mod 16)"

definition htmlSafe :: "char \<Rightarrow> bool" where
  \<open>htmlSafe c = (0x20 \<le> (of_char c :: nat) \<and> (of_char c :: nat) < 0x80
     \<and> c \<noteq> CHR 0x22 \<and> c \<noteq> CHR 0x5C \<and> c \<noteq> CHR ''<'' \<and> c \<noteq> CHR ''>'' \<and> c \<noteq> CHR ''&'')\<close>

definition escape_byte :: "char \<Rightarrow> string" where
  "escape_byte c =
     CHR 0x5C #
       (if c = CHR 0x5C \<or> c = CHR 0x22 then [c]
        else if c = CHR 0x08 then ''b''
        else if c = CHR 0x0C then ''f''
        else if c = CHR 0x0A then ''n''
        else if c = CHR 0x0D then ''r''
        else if c = CHR 0x09 then ''t''
        else ''u00'' @ [lowerhex (of_char c div 16), lowerhex (of_char c mod 16)])"

function appendString :: "string \<Rightarrow> string" where
  "appendString [] = []"
| "appendString (c # cs) =
     (if (of_char c :: nat) < 0x80 then
        (if htmlSafe c then [c] else escape_byte c) @ appendString cs
      else
        (case DecodeRune (take 4 (c # cs)) of (r, sz) \<Rightarrow>
           if r = RuneError \<and> sz = 1 then
             (CHR 0x5C # ''ufffd'') @ appendString cs
           else if r = 0x2028 \<or> r = 0x2029 then
             (CHR 0x5C # ''u202'') @ [lowerhex (r mod 16)] @ appendString (drop (sz - 1) cs)
           else
             (c # take (sz - 1) cs) @ appendString (drop (sz - 1) cs)))"
  by pat_completeness auto
termination
  by (relation "measure length") auto

definition json_string :: "string \<Rightarrow> string" where
  "json_string s = [CHR 0x22] @ appendString s @ [CHR 0x22]"

definition json_bool :: "bool \<Rightarrow> string" where
  "json_bool b = (if b then ''true'' else ''false'')"

fun join :: "string \<Rightarrow> string list \<Rightarrow> string" where
  "join sep [] = []"
| "join sep [x] = x"
| "join sep (x # y # ys) = x @ sep @ join sep (y # ys)"

definition json_array :: "('a \<Rightarrow> string) \<Rightarrow> 'a slice \<Rightarrow> string" where
  "json_array enc s =
     (case s of None \<Rightarrow> ''null'' | Some xs \<Rightarrow> ''['' @ join '','' (map enc xs) @ '']'')"

text \<open>\<^verbatim>\<open>fmt\<close>'s \<^verbatim>\<open>%d\<close> of an integer.\<close>

function digits :: "nat \<Rightarrow> string" where
  "digits n = (if n < 10 then [''0123456789'' ! n] else digits (n div 10) @ [''0123456789'' ! (n mod 10)])"
  by pat_completeness auto
termination
  by (relation "measure id") auto

definition format_d :: "int \<Rightarrow> string" where
  "format_d i = (if i < 0 then ''-'' @ digits (nat (- i)) else digits (nat i))"


section \<open>The wire shapes\<close>

record Name =
  FamilyName :: string
  GivenName :: string

record Email =
  Primary :: bool
  Value :: string

record Meta =
  ResourceType :: string
  Created :: Time
  LastModified :: Time

record GroupRef =
  Type :: string
  Value :: string

record User =
  Schemas :: "string slice"
  UserName :: string
  Name :: Name
  Emails :: "Email slice"
  Active :: bool
  Timezone :: string

record UserResponse =
  Schemas :: "string slice"
  ID :: string
  ExternalID :: string
  UserName :: string
  Name :: Name
  Emails :: "Email slice"
  Timezone :: string
  Active :: bool
  Meta :: Meta
  Groups :: "any slice"

record UserErrorResponse =
  Schemas :: "string slice"
  ScimType :: string
  Detail :: string
  Status :: string

record UserResource =
  Schemas :: "string slice"
  ID :: string
  ExternalID :: any
  UserName :: string
  Name :: Name
  Emails :: "Email slice"
  Timezone :: string
  Active :: bool
  Meta :: Meta
  Groups :: "GroupRef slice"

record UsersResponse =
  TotalResults :: "64 word"
  Schemas :: "string slice"
  Resources :: "UserResource slice"

record NrUserTypeExt =
  NrUserType :: string

record UserTypeBody =
  Schemas :: "string slice"
  UrnIetfParamsScimSchemasExtensionNewrelic21User :: NrUserTypeExt

record Group =
  Schemas :: "string slice"
  DisplayName :: string

record GroupResponse =
  Schemas :: "string slice"
  ID :: string
  DisplayName :: string
  Meta :: Meta
  Members :: "any slice"

record GroupErrorResponse =
  Schemas :: "string slice"
  ScimType :: string
  Detail :: string
  Status :: string

record GroupResource =
  Schemas :: "string slice"
  ID :: string
  DisplayName :: string
  Meta :: Meta
  Members :: "any slice"

record GroupsResponse =
  TotalResults :: "64 word"
  Schemas :: "string slice"
  Resources :: "GroupResource slice"

record MemberValue =
  Value :: string

record Operation =
  Op :: string
  Path :: string
  Value :: "MemberValue slice"

record UpdateGroup =
  Schemas :: "string slice"
  Operations :: "Operation slice"

text \<open>The zero values, which the named results of every operation start from.\<close>

definition zero_Name :: Name where
  "zero_Name = \<lparr>FamilyName = [], GivenName = []\<rparr>"

definition zero_Meta :: Meta where
  "zero_Meta = \<lparr>ResourceType = [], Created = zero_Time, LastModified = zero_Time\<rparr>"

definition zero_UserResponse :: UserResponse where
  "zero_UserResponse = \<lparr>UserResponse.Schemas = None, UserResponse.ID = [],
     UserResponse.ExternalID = [], UserResponse.UserName = [], UserResponse.Name = zero_Name,
     UserResponse.Emails = None, UserResponse.Timezone = [], UserResponse.Active = False,
     UserResponse.Meta = zero_Meta, UserResponse.Groups = None\<rparr>"

definition zero_UserErrorResponse :: UserErrorResponse where
  "zero_UserErrorResponse = \<lparr>UserErrorResponse.Schemas = None,
     UserErrorResponse.ScimType = [], UserErrorResponse.Detail = [],
     UserErrorResponse.Status = []\<rparr>"

definition zero_UsersResponse :: UsersResponse where
  "zero_UsersResponse = \<lparr>UsersResponse.TotalResults = 0, UsersResponse.Schemas = None,
     UsersResponse.Resources = None\<rparr>"

definition zero_UserTypeBody :: UserTypeBody where
  "zero_UserTypeBody = \<lparr>UserTypeBody.Schemas = None,
     UrnIetfParamsScimSchemasExtensionNewrelic21User = \<lparr>NrUserType = []\<rparr>\<rparr>"

definition zero_Group :: Group where
  "zero_Group = \<lparr>Group.Schemas = None, Group.DisplayName = []\<rparr>"

definition zero_GroupResponse :: GroupResponse where
  "zero_GroupResponse = \<lparr>GroupResponse.Schemas = None, GroupResponse.ID = [],
     GroupResponse.DisplayName = [], GroupResponse.Meta = zero_Meta,
     GroupResponse.Members = None\<rparr>"

definition zero_GroupErrorResponse :: GroupErrorResponse where
  "zero_GroupErrorResponse = \<lparr>GroupErrorResponse.Schemas = None,
     GroupErrorResponse.ScimType = [], GroupErrorResponse.Detail = [],
     GroupErrorResponse.Status = []\<rparr>"

definition zero_GroupsResponse :: GroupsResponse where
  "zero_GroupsResponse = \<lparr>GroupsResponse.TotalResults = 0, GroupsResponse.Schemas = None,
     GroupsResponse.Resources = None\<rparr>"

definition zero_UpdateGroup :: UpdateGroup where
  "zero_UpdateGroup = \<lparr>UpdateGroup.Schemas = None, Operations = None\<rparr>"

section \<open>What the standard library and the network decide\<close>

text \<open>
  The client calls \<^verbatim>\<open>url.Parse\<close> (inside \<^verbatim>\<open>http.NewRequest\<close>), \<^verbatim>\<open>URL.Query\<close>,
  \<^verbatim>\<open>URL.String\<close> and \<^verbatim>\<open>json.Unmarshal\<close>, which are not part of the repository. They are
  parameters: \<open>Unmarshal_T data v\<close> is the value left in \<open>v\<close> by
  \<^verbatim>\<open>json.Unmarshal(data, &v)\<close> together with the error it returns. \<open>strconv_Quote\<close>
  is the \<^verbatim>\<open>%q\<close> of \<^verbatim>\<open>fmt\<close>.
\<close>

record lib =
  url_Parse :: "string \<Rightarrow> error + URL"
  URL_Query :: "URL \<Rightarrow> Values"
  URL_String :: "URL \<Rightarrow> string"
  strconv_Quote :: "string \<Rightarrow> string"
  Unmarshal_UserResponse :: "string \<Rightarrow> UserResponse \<Rightarrow> UserResponse \<times> error option"
  Unmarshal_UsersResponse :: "string \<Rightarrow> UsersResponse \<Rightarrow> UsersResponse \<times> error option"
  Unmarshal_UserErrorResponse ::
    "string \<Rightarrow> UserErrorResponse \<Rightarrow> UserErrorResponse \<times> error option"
  Unmarshal_GroupResponse :: "string \<Rightarrow> GroupResponse \<Rightarrow> GroupResponse \<times> error option"
  Unmarshal_GroupsResponse ::
    "string \<Rightarrow> GroupsResponse \<Rightarrow> GroupsResponse \<times> error option"
  Unmarshal_GroupErrorResponse ::
    "string \<Rightarrow> GroupErrorResponse \<Rightarrow> GroupErrorResponse \<times> error option"

definition removeEmptyPort :: "string \<Rightarrow> string" where
  "removeEmptyPort host =
     (if host \<noteq> [] \<and> last host = CHR '':'' then butlast host else host)"

definition NewRequest :: "lib \<Rightarrow> string \<Rightarrow> string \<Rightarrow> string option \<Rightarrow> error + Request" where
  "NewRequest lib method url body =
     (let method' = (if method = [] then ''GET'' else method) in
      if \<not> validMethod method' then
        Inl (Error (''net/http: invalid method '' @ strconv_Quote lib method'))
      else
        (case url_Parse lib url of
           Inl err \<Rightarrow> Inl err
         | Inr u \<Rightarrow>
             Inr \<lparr>Method = method', URL = u\<lparr>Host := removeEmptyPort (Host u)\<rparr>,
                  Header = [], Body = body\<rparr>))"

section \<open>The client and its transport\<close>

record Client =
  BaseUrl :: string
  ApiToken :: string
  HttpClient :: http_Client

text \<open>What an operation does to the outside: lines printed on standard output and
  requests handed to \<^verbatim>\<open>HttpClient.Do\<close>, in order.\<close>

datatype event = Println string | HttpDo Request

text \<open>An operation returns its two shapes and an error, or panics. The context argument
  of every method is never used and is left out.\<close>

datatype ('s, 'e) outcome = Returned 's 'e "error option" | Panicked panic

definition NewClient :: "(Request \<Rightarrow> error + Response) \<Rightarrow> string \<Rightarrow> Client" where
  "NewClient network apiToken =
     \<lparr>BaseUrl = ''https://scim-provisioning.service.newrelic.com/scim/v2/'',
      ApiToken = apiToken,
      HttpClient = \<lparr>Timeout = 20 * 1000000000, Do = network\<rparr>\<rparr>"

definition doRequest :: "Client \<Rightarrow> Request \<Rightarrow> (error + string) \<times> event list" where
  "doRequest c req =
     (let req1 = req\<lparr>Header := Header_Set ''Authorization'' (''Bearer '' @ ApiToken c) (Header req)\<rparr>;
          req2 = req1\<lparr>Header := Header_Set ''content-type'' ''application/json'' (Header req1)\<rparr>
      in
      ((case Do (HttpClient c) req2 of
          Inl err \<Rightarrow> Inl err
        | Inr resp \<Rightarrow>
            (case ReadAll_Body resp of
               Inl err \<Rightarrow> Inl err
             | Inr body \<Rightarrow>
                 if \<not> (StatusCode resp \<ge> 200 \<and> StatusCode resp \<le> 299) then
                   Inl (Error (''error body: '' @ body @ [CHR 0x0A] @ ''status Code: ''
                                @ format_d (StatusCode resp)))
                 else Inr body)),
       [HttpDo req2]))"


section \<open>Users\<close>

definition userPath :: string where
  "userPath = ''Users''"

definition User_fill_defaults :: "User \<Rightarrow> User" where
  "User_fill_defaults u =
     (let u = (if len (User.Schemas u) = 0
               then u\<lparr>User.Schemas := Some [''urn:ietf:params:scim:schemas:core:2.0:User'']\<rparr>
               else u);
          u = (if User.Timezone u = [] then u\<lparr>User.Timezone := ''Europe/Istanbul''\<rparr> else u)
      in u)"

definition UserTypeBody_fill_defaults :: "UserTypeBody \<Rightarrow> UserTypeBody" where
  "UserTypeBody_fill_defaults u =
     (if len (UserTypeBody.Schemas u) = 0
      then u\<lparr>UserTypeBody.Schemas := Some [''urn:ietf:params:scim:schemas:core:2.0:User'',
                 ''urn:ietf:params:scim:schemas:extension:newrelic:2.0:User'']\<rparr>
      else u)"

text \<open>\<^verbatim>\<open>json.Marshal\<close> of the outgoing shapes: the keys are the field tags, in the order
  of the fields.\<close>

definition Marshal_Name :: "Name \<Rightarrow> string" where
  \<open>Marshal_Name n = ''{"familyName":'' @ json_string (FamilyName n)
     @ '',"givenName":'' @ json_string (GivenName n) @ ''}''\<close>

definition Marshal_Email :: "Email \<Rightarrow> string" where
  \<open>Marshal_Email e = ''{"primary":'' @ json_bool (Primary e)
     @ '',"value":'' @ json_string (Email.Value e) @ ''}''\<close>

definition Marshal_User :: "User \<Rightarrow> string" where
  \<open>Marshal_User u = ''{"schemas":'' @ json_array json_string (User.Schemas u)
     @ '',"userName":'' @ json_string (User.UserName u)
     @ '',"name":'' @ Marshal_Name (User.Name u)
     @ '',"emails":'' @ json_array Marshal_Email (User.Emails u)
     @ '',"active":'' @ json_bool (User.Active u)
     @ '',"timezone":'' @ json_string (User.Timezone u) @ ''}''\<close>

definition Marshal_UserTypeBody :: "UserTypeBody \<Rightarrow> string" where
  \<open>Marshal_UserTypeBody u = ''{"schemas":'' @ json_array json_string (UserTypeBody.Schemas u)
     @ '',"urn:ietf:params:scim:schemas:extension:newrelic:2.1:User":{"nrUserType":''
     @ json_string (NrUserType (UrnIetfParamsScimSchemasExtensionNewrelic21User u)) @ ''}}''\<close>

definition UserList :: "lib \<Rightarrow> Client \<Rightarrow> (UsersResponse, UserErrorResponse) outcome \<times> event list" where
  "UserList lib c =
     (let fullUrl = BaseUrl c @ userPath in
      case NewRequest lib ''Get'' fullUrl None of
        Inl err \<Rightarrow> (Returned zero_UsersResponse zero_UserErrorResponse (Some err), [])
      | Inr req \<Rightarrow>
        (case doRequest c req of
           (Inl err, sent) \<Rightarrow> (Returned zero_UsersResponse zero_UserErrorResponse (Some err), sent)
         | (Inr resp, sent) \<Rightarrow>
           (case Unmarshal_UsersResponse lib resp zero_UsersResponse of
              (usersResponse, Some err) \<Rightarrow> (Returned usersResponse zero_UserErrorResponse (Some err), sent)
            | (usersResponse, None) \<Rightarrow>
              (case index (UsersResponse.Schemas usersResponse) 0 of
                 Inl p \<Rightarrow> (Panicked p, sent)
               | Inr schema0 \<Rightarrow>
                   if schema0 = ''urn:ietf:params:scim:api:messages:2.0:Error'' then
                     (case Unmarshal_UserErrorResponse lib resp zero_UserErrorResponse of
                        (userErrorResponse, Some err) \<Rightarrow>
                          (Returned usersResponse userErrorResponse (Some err), sent)
                      | (userErrorResponse, None) \<Rightarrow> (Returned usersResponse userErrorResponse None, sent))
                   else (Returned usersResponse zero_UserErrorResponse None, sent)))))"

definition GetUserByID :: "lib \<Rightarrow> Client \<Rightarrow> string \<Rightarrow> (UserResponse, UserErrorResponse) outcome \<times> event list" where
  "GetUserByID lib c userID =
     (let fullUrl = BaseUrl c @ userPath @ ''/'' @ userID in
      case NewRequest lib ''GET'' fullUrl None of
        Inl err \<Rightarrow> (Returned zero_UserResponse zero_UserErrorResponse (Some err), [])
      | Inr req \<Rightarrow>
        (case doRequest c req of
           (Inl err, sent) \<Rightarrow> (Returned zero_UserResponse zero_UserErrorResponse (Some err), sent)
         | (Inr resp, sent) \<Rightarrow>
           (case Unmarshal_UserResponse lib resp zero_UserResponse of
              (userResponse, Some err) \<Rightarrow> (Returned userResponse zero_UserErrorResponse (Some err), sent)
            | (userResponse, None) \<Rightarrow>
              (case index (UserResponse.Schemas userResponse) 0 of
                 Inl p \<Rightarrow> (Panicked p, sent)
               | Inr schema0 \<Rightarrow>
                   if schema0 = ''urn:ietf:params:scim:api:messages:2.0:Error'' then
                     (case Unmarshal_UserErrorResponse lib resp zero_UserErrorResponse of
                        (userErrorResponse, Some err) \<Rightarrow>
                          (Returned userResponse userErrorResponse (Some err), sent)
                      | (userErrorResponse, None) \<Rightarrow> (Returned userResponse userErrorResponse None, sent))
                   else (Returned userResponse zero_UserErrorResponse None, sent)))))"

definition GetUserByName :: "lib \<Rightarrow> Client \<Rightarrow> string \<Rightarrow> (UserResponse, UserErrorResponse) outcome \<times> event list" where
  "GetUserByName lib c userName =
     (let fullUrl = BaseUrl c @ userPath in
      case NewRequest lib ''GET'' fullUrl None of
        Inl err \<Rightarrow> (Returned zero_UserResponse zero_UserErrorResponse (Some err), [])
      | Inr req \<Rightarrow>
        (let q = URL_Query lib (URL req);
             filter = ''userName eq '' @ [CHR 0x22] @ userName @ [CHR 0x22];
             q = Values_Add ''filter'' filter q;
             req = req\<lparr>URL := (URL req)\<lparr>RawQuery := Values_Encode q\<rparr>\<rparr>;
             printed = [Println filter, Println (URL_String lib (URL req))]
         in
        (case doRequest c req of
           (Inl err, sent) \<Rightarrow> (Returned zero_UserResponse zero_UserErrorResponse (Some err), printed @ sent)
         | (Inr resp, sent) \<Rightarrow>
           (case Unmarshal_UserResponse lib resp zero_UserResponse of
              (userResponse, Some err) \<Rightarrow> (Returned userResponse zero_UserErrorResponse (Some err), printed @ sent)
            | (userResponse, None) \<Rightarrow>
              (case index (UserResponse.Schemas userResponse) 0 of
                 Inl p \<Rightarrow> (Panicked p, printed @ sent)
               | Inr schema0 \<Rightarrow>
                   if schema0 = ''urn:ietf:params:scim:api:messages:2.0:Error'' then
                     (case Unmarshal_UserErrorResponse lib resp zero_UserErrorResponse of
                        (userErrorResponse, Some err) \<Rightarrow>
                          (Returned userResponse userErrorResponse (Some err), printed @ sent)
                      | (userErrorResponse, None) \<Rightarrow> (Returned userResponse userErrorResponse None, printed @ sent))
                   else (Returned userResponse zero_UserErrorResponse None, printed @ sent))))))"

definition CreateUser :: "lib \<Rightarrow> Client \<Rightarrow> User \<Rightarrow> (UserResponse, UserErrorResponse) outcome \<times> event list" where
  "CreateUser lib c user =
     (let fullUrl = BaseUrl c @ userPath;
          user = User_fill_defaults user;
          postBody = Marshal_User user in
      case NewRequest lib ''POST'' fullUrl (Some postBody) of
        Inl err \<Rightarrow> (Returned zero_UserResponse zero_UserErrorResponse (Some err), [])
      | Inr req \<Rightarrow>
        (case doRequest c req of
           (Inl err, sent) \<Rightarrow> (Returned zero_UserResponse zero_UserErrorResponse (Some err), sent)
         | (Inr resp, sent) \<Rightarrow>
           (case Unmarshal_UserResponse lib resp zero_UserResponse of
              (userResponse, Some err) \<Rightarrow> (Returned userResponse zero_UserErrorResponse (Some err), sent)
            | (userResponse, None) \<Rightarrow>
              (case index (UserResponse.Schemas userResponse) 0 of
                 Inl p \<Rightarrow> (Panicked p, sent)
               | Inr schema0 \<Rightarrow>
                   if schema0 = ''urn:ietf:params:scim:api:messages:2.0:Error'' then
                     (case Unmarshal_UserErrorResponse lib resp zero_UserErrorResponse of
                        (userErrorResponse, Some err) \<Rightarrow>
                          (Returned userResponse userErrorResponse (Some err), sent)
                      | (userErrorResponse, None) \<Rightarrow> (Returned userResponse userErrorResponse None, sent))
                   else (Returned userResponse zero_UserErrorResponse None, sent)))))"

definition UpdateUser :: "lib \<Rightarrow> Client \<Rightarrow> string \<Rightarrow> User \<Rightarrow> (UserResponse, UserErrorResponse) outcome \<times> event list" where
  "UpdateUser lib c userID user =
     (let fullUrl = BaseUrl c @ userPath @ ''/'' @ userID;
          user = User_fill_defaults user;
          postBody = Marshal_User user in
      case NewRequest lib ''PUT'' fullUrl (Some postBody) of
        Inl err \<Rightarrow> (Returned zero_UserResponse zero_UserErrorResponse (Some err), [])
      | Inr req \<Rightarrow>
        (case doRequest c req of
           (Inl err, sent) \<Rightarrow> (Returned zero_UserResponse zero_UserErrorResponse (Some err), sent)
         | (Inr resp, sent) \<Rightarrow>
           (case Unmarshal_UserResponse lib resp zero_UserResponse of
              (userResponse, Some err) \<Rightarrow> (Returned userResponse zero_UserErrorResponse (Some err), sent)
            | (userResponse, None) \<Rightarrow>
              (case index (UserResponse.Schemas userResponse) 0 of
                 Inl p \<Rightarrow> (Panicked p, sent)
               | Inr schema0 \<Rightarrow>
                   if schema0 = ''urn:ietf:params:scim:api:messages:2.0:Error'' then
                     (case Unmarshal_UserErrorResponse lib resp zero_UserErrorResponse of
                        (userErrorResponse, Some err) \<Rightarrow>
                          (Returned userResponse userErrorResponse (Some err), sent)
                      | (userErrorResponse, None) \<Rightarrow> (Returned userResponse userErrorResponse None, sent))
                   else (Returned userResponse zero_UserErrorResponse None, sent)))))"

definition DeleteUser :: "lib \<Rightarrow> Client \<Rightarrow> string \<Rightarrow> error option \<times> event list" where
  "DeleteUser lib c userID =
     (let fullUrl = BaseUrl c @ userPath @ ''/'' @ userID in
      case NewRequest lib ''DELETE'' fullUrl None of
        Inl err \<Rightarrow> (Some err, [])
      | Inr req \<Rightarrow>
        (case doRequest c req of
           (Inl err, sent) \<Rightarrow> (Some err, sent)
         | (Inr resp, sent) \<Rightarrow> (None, sent)))"

type_synonym UserType = "64 word"

definition Full :: UserType where
  "Full = 0"

definition Core :: UserType where
  "Core = 1"

definition Basic :: UserType where
  "Basic = 2"

definition UserType_String :: "UserType \<Rightarrow> string" where
  "UserType_String u =
     (if u = Full then ''Full User''
      else if u = Core then ''Core User''
      else if u = Basic then ''Basic User''
      else ''unknown'')"

definition ChangeUserType :: "lib \<Rightarrow> Client \<Rightarrow> string \<Rightarrow> UserType \<Rightarrow> (UserResponse, UserErrorResponse) outcome \<times> event list" where
  "ChangeUserType lib c userID userType =
     (let fullUrl = BaseUrl c @ userPath @ ''/'' @ userID;
          userTypeBody = zero_UserTypeBody\<lparr>UrnIetfParamsScimSchemasExtensionNewrelic21User :=
                           \<lparr>NrUserType = UserType_String userType\<rparr>\<rparr>;
          userTypeBody = UserTypeBody_fill_defaults userTypeBody;
          putBody = Marshal_UserTypeBody userTypeBody in
      case NewRequest lib ''PUT'' fullUrl (Some putBody) of
        Inl err \<Rightarrow> (Returned zero_UserResponse zero_UserErrorResponse (Some err), [])
      | Inr req \<Rightarrow>
        (case doRequest c req of
           (Inl err, sent) \<Rightarrow> (Returned zero_UserResponse zero_UserErrorResponse (Some err), sent)
         | (Inr resp, sent) \<Rightarrow>
           (case Unmarshal_UserResponse lib resp zero_UserResponse of
              (userResponse, Some err) \<Rightarrow> (Returned userResponse zero_UserErrorResponse (Some err), sent)
            | (userResponse, None) \<Rightarrow>
              (case index (UserResponse.Schemas userResponse) 0 of
                 Inl p \<Rightarrow> (Panicked p, sent)
               | Inr schema0 \<Rightarrow>
                   if schema0 = ''urn:ietf:params:scim:api:messages:2.0:Error'' then
                     (case Unmarshal_UserErrorResponse lib resp zero_UserErrorResponse of
                        (userErrorResponse, Some err) \<Rightarrow>
                          (Returned userResponse userErrorResponse (Some err), sent)
                      | (userErrorResponse, None) \<Rightarrow> (Returned userResponse userErrorResponse None, sent))
                   else (Returned userResponse zero_UserErrorResponse None, sent)))))"

section \<open>Groups\<close>

definition groupPath :: string where
  "groupPath = ''Groups''"

definition Group_fill_defaults :: "Group \<Rightarrow> Group" where
  "Group_fill_defaults g =
     (if len (Group.Schemas g) = 0
      then g\<lparr>Group.Schemas := Some [''urn:ietf:params:scim:schemas:core:2.0:Group'']\<rparr>
      else g)"

definition UpdateGroup_fill_defaults :: "UpdateGroup \<Rightarrow> UpdateGroup" where
  "UpdateGroup_fill_defaults ug =
     (if len (UpdateGroup.Schemas ug) = 0
      then ug\<lparr>UpdateGroup.Schemas := Some [''urn:ietf:params:scim:api:messages:2.0:PatchOp'']\<rparr>
      else ug)"

definition Marshal_Group :: "Group \<Rightarrow> string" where
  \<open>Marshal_Group g = ''{"schemas":'' @ json_array json_string (Group.Schemas g)
     @ '',"displayName":'' @ json_string (Group.DisplayName g) @ ''}''\<close>

definition Marshal_MemberValue :: "MemberValue \<Rightarrow> string" where
  \<open>Marshal_MemberValue v = ''{"value":'' @ json_string (MemberValue.Value v) @ ''}''\<close>

definition Marshal_Operation :: "Operation \<Rightarrow> string" where
  \<open>Marshal_Operation x = ''{"op":'' @ json_string (Op x)
     @ '',"path":'' @ json_string (Path x)
     @ '',"value":'' @ json_array Marshal_MemberValue (Operation.Value x) @ ''}''\<close>

definition Marshal_UpdateGroup :: "UpdateGroup \<Rightarrow> string" where
  \<open>Marshal_UpdateGroup ug = ''{"schemas":'' @ json_array json_string (UpdateGroup.Schemas ug)
     @ '',"Operations":'' @ json_array Marshal_Operation (Operations ug) @ ''}''\<close>

definition CreateGroup :: "lib \<Rightarrow> Client \<Rightarrow> string \<Rightarrow> (GroupResponse, GroupErrorResponse) outcome \<times> event list" where
  "CreateGroup lib c groupName =
     (let fullUrl = BaseUrl c @ groupPath;
          group = zero_Group\<lparr>Group.DisplayName := groupName\<rparr>;
          group = Group_fill_defaults group;
          postBody = Marshal_Group group in
      case NewRequest lib ''POST'' fullUrl (Some postBody) of
        Inl err \<Rightarrow> (Returned zero_GroupResponse zero_GroupErrorResponse (Some err), [])
      | Inr req \<Rightarrow>
        (case doRequest c req of
           (Inl err, sent) \<Rightarrow> (Returned zero_GroupResponse zero_GroupErrorResponse (Some err), sent)
         | (Inr resp, sent) \<Rightarrow>
           (case Unmarshal_GroupResponse lib resp zero_GroupResponse of
              (groupResponse, Some err) \<Rightarrow> (Returned groupResponse zero_GroupErrorResponse (Some err), sent)
            | (groupResponse, None) \<Rightarrow>
              (case index (GroupResponse.Schemas groupResponse) 0 of
                 Inl p \<Rightarrow> (Panicked p, sent)
               | Inr schema0 \<Rightarrow>
                   if schema0 = ''urn:ietf:params:scim:api:messages:2.0:Error'' then
                     (case Unmarshal_GroupErrorResponse lib resp zero_GroupErrorResponse of
                        (groupErrorResponse, Some err) \<Rightarrow>
                          (Returned groupResponse groupErrorResponse (Some err), sent)
                      | (groupErrorResponse, None) \<Rightarrow> (Returned groupResponse groupErrorResponse None, sent))
                   else (Returned groupResponse zero_GroupErrorResponse None, sent)))))"

definition UpdateGroup :: "lib \<Rightarrow> Client \<Rightarrow> string \<Rightarrow> (GroupResponse, GroupErrorResponse) outcome \<times> event list" where
  "UpdateGroup lib c groupName =
     (let fullUrl = BaseUrl c @ groupPath;
          group = zero_Group\<lparr>Group.DisplayName := groupName\<rparr>;
          group = Group_fill_defaults group;
          postBody = Marshal_Group group in
      case NewRequest lib ''PUT'' fullUrl (Some postBody) of
        Inl err \<Rightarrow> (Returned zero_GroupResponse zero_GroupErrorResponse (Some err), [])
      | Inr req \<Rightarrow>
        (case doRequest c req of
           (Inl err, sent) \<Rightarrow> (Returned zero_GroupResponse zero_GroupErrorResponse (Some err), sent)
         | (Inr resp, sent) \<Rightarrow>
           (case Unmarshal_GroupResponse lib resp zero_GroupResponse of
              (groupResponse, Some err) \<Rightarrow> (Returned groupResponse zero_GroupErrorResponse (Some err), sent)
            | (groupResponse, None) \<Rightarrow>
              (case index (GroupResponse.Schemas groupResponse) 0 of
                 Inl p \<Rightarrow> (Panicked p, sent)
               | Inr schema0 \<Rightarrow>
                   if schema0 = ''urn:ietf:params:scim:api:messages:2.0:Error'' then
                     (case Unmarshal_GroupErrorResponse lib resp zero_GroupErrorResponse of
                        (groupErrorResponse, Some err) \<Rightarrow>
                          (Returned groupResponse groupErrorResponse (Some err), sent)
                      | (groupErrorResponse, None) \<Rightarrow> (Returned groupResponse groupErrorResponse None, sent))
                   else (Returned groupResponse zero_GroupErrorResponse None, sent)))))"

definition GroupList :: "lib \<Rightarrow> Client \<Rightarrow> (GroupsResponse, GroupErrorResponse) outcome \<times> event list" where
  "GroupList lib c =
     (let fullUrl = BaseUrl c @ groupPath in
      case NewRequest lib ''Get'' fullUrl None of
        Inl err \<Rightarrow> (Returned zero_GroupsResponse zero_GroupErrorResponse (Some err), [])
      | Inr req \<Rightarrow>
        (case doRequest c req of
           (Inl err, sent) \<Rightarrow> (Returned zero_GroupsResponse zero_GroupErrorResponse (Some err), sent)
         | (Inr resp, sent) \<Rightarrow>
           (case Unmarshal_GroupsResponse lib resp zero_GroupsResponse of
              (groupsResponse, Some err) \<Rightarrow> (Returned groupsResponse zero_GroupErrorResponse (Some err), sent)
            | (groupsResponse, None) \<Rightarrow>
              (case index (GroupsResponse.Schemas groupsResponse) 0 of
                 Inl p \<Rightarrow> (Panicked p, sent)
               | Inr schema0 \<Rightarrow>
                   if schema0 = ''urn:ietf:params:scim:api:messages:2.0:Error'' then
                     (case Unmarshal_GroupErrorResponse lib resp zero_GroupErrorResponse of
                        (groupErrorResponse, Some err) \<Rightarrow>
                          (Returned groupsResponse groupErrorResponse (Some err), sent)
                      | (groupErrorResponse, None) \<Rightarrow> (Returned groupsResponse groupErrorResponse None, sent))
                   else (Returned groupsResponse zero_GroupErrorResponse None, sent)))))"

definition GetGroupByID :: "lib \<Rightarrow> Client \<Rightarrow> string \<Rightarrow> (GroupsResponse, GroupErrorResponse) outcome \<times> event list" where
  "GetGroupByID lib c groupID =
     (let fullUrl = BaseUrl c @ groupPath @ ''/'' @ groupID in
      case NewRequest lib ''GET'' fullUrl None of
        Inl err \<Rightarrow> (Returned zero_GroupsResponse zero_GroupErrorResponse (Some err), [])
      | Inr req \<Rightarrow>
        (case doRequest c req of
           (Inl err, sent) \<Rightarrow> (Returned zero_GroupsResponse zero_GroupErrorResponse (Some err), sent)
         | (Inr resp, sent) \<Rightarrow>
           (case Unmarshal_GroupsResponse lib resp zero_GroupsResponse of
              (groupsResponse, Some err) \<Rightarrow> (Returned groupsResponse zero_GroupErrorResponse (Some err), sent)
            | (groupsResponse, None) \<Rightarrow>
              (case index (GroupsResponse.Schemas groupsResponse) 0 of
                 Inl p \<Rightarrow> (Panicked p, sent)
               | Inr schema0 \<Rightarrow>
                   if schema0 = ''urn:ietf:params:scim:api:messages:2.0:Error'' then
                     (case Unmarshal_GroupErrorResponse lib resp zero_GroupErrorResponse of
                        (groupErrorResponse, Some err) \<Rightarrow>
                          (Returned groupsResponse groupErrorResponse (Some err), sent)
                      | (groupErrorResponse, None) \<Rightarrow> (Returned groupsResponse groupErrorResponse None, sent))
                   else (Returned groupsResponse zero_GroupErrorResponse None, sent)))))"

definition GetGroupByName :: "lib \<Rightarrow> Client \<Rightarrow> string \<Rightarrow> (GroupsResponse, GroupErrorResponse) outcome \<times> event list" where
  "GetGroupByName lib c groupName =
     (let fullUrl = BaseUrl c @ groupPath in
      case NewRequest lib ''GET'' fullUrl None of
        Inl err \<Rightarrow> (Returned zero_GroupsResponse zero_GroupErrorResponse (Some err), [])
      | Inr req \<Rightarrow>
        (let q = URL_Query lib (URL req);
             filter = ''displayName eq '' @ [CHR 0x22] @ groupName @ [CHR 0x22];
             q = Values_Add ''filter'' filter q;
             req = req\<lparr>URL := (URL req)\<lparr>RawQuery := Values_Encode q\<rparr>\<rparr>;
             printed = [Println filter, Println (URL_String lib (URL req))]
         in
        (case doRequest c req of
           (Inl err, sent) \<Rightarrow> (Returned zero_GroupsResponse zero_GroupErrorResponse (Some err), printed @ sent)
         | (Inr resp, sent) \<Rightarrow>
           (case Unmarshal_GroupsResponse lib resp zero_GroupsResponse of
              (groupsResponse, Some err) \<Rightarrow> (Returned groupsResponse zero_GroupErrorResponse (Some err), printed @ sent)
            | (groupsResponse, None) \<Rightarrow>
              (case index (GroupsResponse.Schemas groupsResponse) 0 of
                 Inl p \<Rightarrow> (Panicked p, printed @ sent)
               | Inr schema0 \<Rightarrow>
                   if schema0 = ''urn:ietf:params:scim:api:messages:2.0:Error'' then
                     (case Unmarshal_GroupErrorResponse lib resp zero_GroupErrorResponse of
                        (groupErrorResponse, Some err) \<Rightarrow>
                          (Returned groupsResponse groupErrorResponse (Some err), printed @ sent)
                      | (groupErrorResponse, None) \<Rightarrow> (Returned groupsResponse groupErrorResponse None, printed @ sent))
                   else (Returned groupsResponse zero_GroupErrorResponse None, printed @ sent))))))"

definition GroupMemberOps :: "lib \<Rightarrow> Client \<Rightarrow> string \<Rightarrow> string \<Rightarrow> string \<Rightarrow> (GroupResponse, GroupErrorResponse) outcome \<times> event list" where
  "GroupMemberOps lib c groupID userID operation =
     (let fullUrl = BaseUrl c @ groupPath @ ''/'' @ groupID;
          updateGroup = zero_UpdateGroup\<lparr>Operations := Some [\<lparr>Op = operation, Path = ''members'',
                          Operation.Value = Some [\<lparr>MemberValue.Value = userID\<rparr>]\<rparr>]\<rparr>;
          updateGroup = UpdateGroup_fill_defaults updateGroup;
          putBody = Marshal_UpdateGroup updateGroup in
      case NewRequest lib ''PATCH'' fullUrl (Some putBody) of
        Inl err \<Rightarrow> (Returned zero_GroupResponse zero_GroupErrorResponse (Some err), [])
      | Inr req \<Rightarrow>
        (case doRequest c req of
           (Inl err, sent) \<Rightarrow> (Returned zero_GroupResponse zero_GroupErrorResponse (Some err), sent)
         | (Inr resp, sent) \<Rightarrow>
           (case Unmarshal_GroupResponse lib resp zero_GroupResponse of
              (groupResponse, Some err) \<Rightarrow> (Returned groupResponse zero_GroupErrorResponse (Some err), sent)
            | (groupResponse, None) \<Rightarrow>
              (case index (GroupResponse.Schemas groupResponse) 0 of
                 Inl p \<Rightarrow> (Panicked p, sent)
               | Inr schema0 \<Rightarrow>
                   if schema0 = ''urn:ietf:params:scim:api:messages:2.0:Error'' then
                     (case Unmarshal_GroupErrorResponse lib resp zero_GroupErrorResponse of
                        (groupErrorResponse, Some err) \<Rightarrow>
                          (Returned groupResponse groupErrorResponse (Some err), sent)
                      | (groupErrorResponse, None) \<Rightarrow> (Returned groupResponse groupErrorResponse None, sent))
                   else (Returned groupResponse zero_GroupErrorResponse None, sent)))))"

definition AddUserToGroup ::
  "lib \<Rightarrow> Client \<Rightarrow> string \<Rightarrow> string \<Rightarrow> (GroupResponse, GroupErrorResponse) outcome \<times> event list" where
  "AddUserToGroup lib c groupID userID = GroupMemberOps lib c groupID userID ''Add''"

definition RemoveUserToGroup ::
  "lib \<Rightarrow> Client \<Rightarrow> string \<Rightarrow> string \<Rightarrow> (GroupResponse, GroupErrorResponse) outcome \<times> event list" where
  "RemoveUserToGroup lib c groupID userID = GroupMemberOps lib c groupID userID ''Remove''"

definition DeleteGroup :: "lib \<Rightarrow> Client \<Rightarrow> string \<Rightarrow> error option \<times> event list" where
  "DeleteGroup lib c groupID =
     (let fullUrl = BaseUrl c @ groupPath @ ''/'' @ groupID in
      case NewRequest lib ''DELETE'' fullUrl None of
        Inl err \<Rightarrow> (Some err, [])
      | Inr req \<Rightarrow>
        (case doRequest c req of
           (Inl err, sent) \<Rightarrow> (Some err, sent)
         | (Inr resp, sent) \<Rightarrow> (None, sent)))"


section \<open>The operations as one family\<close>

text \<open>
  The fourteen methods of the client that parse a response body, with their arguments, so
  that a property of all of them is one statement. \<open>invoke\<close> runs the method and tags
  its shapes; \<open>decode_shape\<close> and \<open>decode_error_shape\<close> are the two calls of
  \<^verbatim>\<open>json.Unmarshal\<close> that the method applies to a response body.
\<close>

datatype call =
    UserList_call
  | GetUserByID_call string
  | GetUserByName_call string
  | CreateUser_call User
  | UpdateUser_call string User
  | ChangeUserType_call string UserType
  | CreateGroup_call string
  | UpdateGroup_call string
  | GroupList_call
  | GetGroupByID_call string
  | GetGroupByName_call string
  | GroupMemberOps_call string string string
  | AddUserToGroup_call string string
  | RemoveUserToGroup_call string string

datatype shape =
    A_UserResponse UserResponse
  | A_UsersResponse UsersResponse
  | A_GroupResponse GroupResponse
  | A_GroupsResponse GroupsResponse

datatype error_shape =
    A_UserErrorResponse UserErrorResponse
  | A_GroupErrorResponse GroupErrorResponse

definition tagged :: "('s \<Rightarrow> shape) \<Rightarrow> ('e \<Rightarrow> error_shape) \<Rightarrow> ('s, 'e) outcome \<times> event list
    \<Rightarrow> (shape, error_shape) outcome \<times> event list" where
  "tagged f g r = (map_outcome f g (fst r), snd r)"

fun invoke :: "lib \<Rightarrow> Client \<Rightarrow> call \<Rightarrow> (shape, error_shape) outcome \<times> event list" where
  "invoke lib c UserList_call = tagged A_UsersResponse A_UserErrorResponse (UserList lib c)"
| "invoke lib c (GetUserByID_call userID) =
     tagged A_UserResponse A_UserErrorResponse (GetUserByID lib c userID)"
| "invoke lib c (GetUserByName_call userName) =
     tagged A_UserResponse A_UserErrorResponse (GetUserByName lib c userName)"
| "invoke lib c (CreateUser_call user) =
     tagged A_UserResponse A_UserErrorResponse (CreateUser lib c user)"
| "invoke lib c (UpdateUser_call userID user) =
     tagged A_UserResponse A_UserErrorResponse (UpdateUser lib c userID user)"
| "invoke lib c (ChangeUserType_call userID userType) =
     tagged A_UserResponse A_UserErrorResponse (ChangeUserType lib c userID userType)"
| "invoke lib c (CreateGroup_call groupName) =
     tagged A_GroupResponse A_GroupErrorResponse (CreateGroup lib c groupName)"
| "invoke lib c (UpdateGroup_call groupName) =
     tagged A_GroupResponse A_GroupErrorResponse (UpdateGroup lib c groupName)"
| "invoke lib c GroupList_call = tagged A_GroupsResponse A_GroupErrorResponse (GroupList lib c)"
| "invoke lib c (GetGroupByID_call groupID) =
     tagged A_GroupsResponse A_GroupErrorResponse (GetGroupByID lib c groupID)"
| "invoke lib c (GetGroupByName_call groupName) =
     tagged A_GroupsResponse A_GroupErrorResponse (GetGroupByName lib c groupName)"
| "invoke lib c (GroupMemberOps_call groupID userID operation) =
     tagged A_GroupResponse A_GroupErrorResponse (GroupMemberOps lib c groupID userID operation)"
| "invoke lib c (AddUserToGroup_call groupID userID) =
     tagged A_GroupResponse A_GroupErrorResponse (AddUserToGroup lib c groupID userID)"
| "invoke lib c (RemoveUserToGroup_call groupID userID) =
     tagged A_GroupResponse A_GroupErrorResponse (RemoveUserToGroup lib c groupID userID)"

text \<open>The success shape of a call is a single resource for the user methods other than
  the list, and for the group methods that write; it is a list for the others.\<close>

datatype kind = One_User | Many_Users | One_Group | Many_Groups

fun kind_of :: "call \<Rightarrow> kind" where
  "kind_of UserList_call = Many_Users"
| "kind_of (GetUserByID_call _) = One_User"
| "kind_of (GetUserByName_call _) = One_User"
| "kind_of (CreateUser_call _) = One_User"
| "kind_of (UpdateUser_call _ _) = One_User"
| "kind_of (ChangeUserType_call _ _) = One_User"
| "kind_of (CreateGroup_call _) = One_Group"
| "kind_of (UpdateGroup_call _) = One_Group"
| "kind_of GroupList_call = Many_Groups"
| "kind_of (GetGroupByID_call _) = Many_Groups"
| "kind_of (GetGroupByName_call _) = Many_Groups"
| "kind_of (GroupMemberOps_call _ _ _) = One_Group"
| "kind_of (AddUserToGroup_call _ _) = One_Group"
| "kind_of (RemoveUserToGroup_call _ _) = One_Group"

fun zero_shape :: "kind \<Rightarrow> shape" where
  "zero_shape One_User = A_UserResponse zero_UserResponse"
| "zero_shape Many_Users = A_UsersResponse zero_UsersResponse"
| "zero_shape One_Group = A_GroupResponse zero_GroupResponse"
| "zero_shape Many_Groups = A_GroupsResponse zero_GroupsResponse"

fun zero_error_shape :: "kind \<Rightarrow> error_shape" where
  "zero_error_shape One_User = A_UserErrorResponse zero_UserErrorResponse"
| "zero_error_shape Many_Users = A_UserErrorResponse zero_UserErrorResponse"
| "zero_error_shape One_Group = A_GroupErrorResponse zero_GroupErrorResponse"
| "zero_error_shape Many_Groups = A_GroupErrorResponse zero_GroupErrorResponse"

fun decode_shape :: "lib \<Rightarrow> kind \<Rightarrow> string \<Rightarrow> shape \<times> error option" where
  "decode_shape lib One_User data =
     map_prod A_UserResponse id (Unmarshal_UserResponse lib data zero_UserResponse)"
| "decode_shape lib Many_Users data =
     map_prod A_UsersResponse id (Unmarshal_UsersResponse lib data zero_UsersResponse)"
| "decode_shape lib One_Group data =
     map_prod A_GroupResponse id (Unmarshal_GroupResponse lib data zero_GroupResponse)"
| "decode_shape lib Many_Groups data =
     map_prod A_GroupsResponse id (Unmarshal_GroupsResponse lib data zero_GroupsResponse)"

fun decode_error_shape :: "lib \<Rightarrow> kind \<Rightarrow> string \<Rightarrow> error_shape \<times> error option" where
  "decode_error_shape lib One_User data =
     map_prod A_UserErrorResponse id (Unmarshal_UserErrorResponse lib data zero_UserErrorResponse)"
| "decode_error_shape lib Many_Users data =
     map_prod A_UserErrorResponse id (Unmarshal_UserErrorResponse lib data zero_UserErrorResponse)"
| "decode_error_shape lib One_Group data =
     map_prod A_GroupErrorResponse id
       (Unmarshal_GroupErrorResponse lib data zero_GroupErrorResponse)"
| "decode_error_shape lib Many_Groups data =
     map_prod A_GroupErrorResponse id
       (Unmarshal_GroupErrorResponse lib data zero_GroupErrorResponse)"

fun shape_Schemas :: "shape \<Rightarrow> string slice" where
  "shape_Schemas (A_UserResponse r) = UserResponse.Schemas r"
| "shape_Schemas (A_UsersResponse r) = UsersResponse.Schemas r"
| "shape_Schemas (A_GroupResponse r) = GroupResponse.Schemas r"
| "shape_Schemas (A_GroupsResponse r) = GroupsResponse.Schemas r"

fun error_shape_Schemas :: "error_shape \<Rightarrow> string slice" where
  "error_shape_Schemas (A_UserErrorResponse r) = UserErrorResponse.Schemas r"
| "error_shape_Schemas (A_GroupErrorResponse r) = GroupErrorResponse.Schemas r"

definition is_zero_error_shape :: "error_shape \<Rightarrow> bool" where
  "is_zero_error_shape e =
     (e = A_UserErrorResponse zero_UserErrorResponse
      \<or> e = A_GroupErrorResponse zero_GroupErrorResponse)"

text \<open>The request as \<^verbatim>\<open>doRequest\<close> hands it to the HTTP client.\<close>

definition with_headers :: "Client \<Rightarrow> Request \<Rightarrow> Request" where
  "with_headers c req =
     req\<lparr>Header := Header_Set ''content-type'' ''application/json''
                      (Header_Set ''Authorization'' (''Bearer '' @ ApiToken c) (Header req))\<rparr>"

text \<open>The message of the error that \<^verbatim>\<open>doRequest\<close> makes of a status outside 200 to 299.\<close>

definition status_error :: "string \<Rightarrow> int \<Rightarrow> error" where
  "status_error body code =
     Error (''error body: '' @ body @ [CHR 0x0A] @ ''status Code: '' @ format_d code)"


text \<open>What \<^verbatim>\<open>doRequest\<close> returns: the body, or the error.\<close>

definition exchange :: "Client \<Rightarrow> Request \<Rightarrow> error + string" where
  "exchange c req = fst (doRequest c req)"


text \<open>The lines that every operation repeats after \<^verbatim>\<open>doRequest\<close>: decode the body into
  the success shape, read the first schema entry, decode again into the error shape when
  it is the error schema. \<open>ds\<close> and \<open>de\<close> are the two decoders applied to the zero
  shapes \<open>zs\<close> and \<open>ze\<close>.\<close>

definition finish :: "(string \<Rightarrow> 's \<times> error option) \<Rightarrow> ('s \<Rightarrow> string slice)
    \<Rightarrow> (string \<Rightarrow> 'e \<times> error option) \<Rightarrow> 's \<Rightarrow> 'e \<Rightarrow> error + string \<Rightarrow> ('s, 'e) outcome" where
  "finish ds schemas de zs ze r =
     (case r of
        Inl err \<Rightarrow> Returned zs ze (Some err)
      | Inr resp \<Rightarrow>
          (case ds resp of
             (s, Some err) \<Rightarrow> Returned s ze (Some err)
           | (s, None) \<Rightarrow>
               (case index (schemas s) 0 of
                  Inl p \<Rightarrow> Panicked p
                | Inr schema0 \<Rightarrow>
                    if schema0 = ''urn:ietf:params:scim:api:messages:2.0:Error'' then
                      (case de resp of
                         (e, Some err) \<Rightarrow> Returned s e (Some err)
                       | (e, None) \<Rightarrow> Returned s e None)
                    else Returned s ze None)))"


section \<open>Names for what the operations build\<close>

text \<open>The request of a search by name: the \<^verbatim>\<open>filter\<close> parameter is added to the query
  of the URL, which is encoded again.\<close>

definition filtered :: "lib \<Rightarrow> string \<Rightarrow> string \<Rightarrow> Request \<Rightarrow> Request" where
  "filtered lib attr v req =
     req\<lparr>URL := (URL req)\<lparr>RawQuery :=
        Values_Encode (Values_Add ''filter'' (attr @ '' eq '' @ [CHR 0x22] @ v @ [CHR 0x22])
          (URL_Query lib (URL req)))\<rparr>\<rparr>"

text \<open>The request bodies of the writing operations.\<close>

definition UserType_body :: "UserType \<Rightarrow> string" where
  "UserType_body userType =
     Marshal_UserTypeBody (UserTypeBody_fill_defaults
       (zero_UserTypeBody\<lparr>UrnIetfParamsScimSchemasExtensionNewrelic21User :=
          \<lparr>NrUserType = UserType_String userType\<rparr>\<rparr>))"

definition Group_body :: "string \<Rightarrow> string" where
  "Group_body groupName =
     Marshal_Group (Group_fill_defaults (zero_Group\<lparr>Group.DisplayName := groupName\<rparr>))"

definition Patch_body :: "string \<Rightarrow> string \<Rightarrow> string" where
  "Patch_body userID operation =
     Marshal_UpdateGroup (UpdateGroup_fill_defaults
       (zero_UpdateGroup\<lparr>Operations := Some [\<lparr>Op = operation, Path = ''members'',
          Operation.Value = Some [\<lparr>MemberValue.Value = userID\<rparr>]\<rparr>]\<rparr>))"

text \<open>An operation after \<^verbatim>\<open>doRequest\<close>, on tagged shapes.\<close>

definition respond :: "lib \<Rightarrow> kind \<Rightarrow> error + string \<Rightarrow> (shape, error_shape) outcome" where
  "respond lib kd r = finish (decode_shape lib kd) shape_Schemas (decode_error_shape lib kd)
     (zero_shape kd) (zero_error_shape kd) r"

section \<open>A stand-in library, to run the operations\<close>

text \<open>
  A library that parses every URL as a bare path and knows three response bodies: the empty
  object, an error message and a user. It decodes the \<^verbatim>\<open>schemas\<close> key only.
\<close>

definition example_Parse :: "string \<Rightarrow> error + URL" where
  "example_Parse s = Inr \<lparr>Scheme = [], Opaque = [], Host = [], Path = s, RawPath = [],
     RawQuery = [], Fragment = []\<rparr>"

definition example_Error_body :: string where
  \<open>example_Error_body =
     ''{"schemas":["urn:ietf:params:scim:api:messages:2.0:Error"],"detail":"gone","status":"404"}''\<close>

definition example_User_body :: string where
  \<open>example_User_body = ''{"schemas":["urn:ietf:params:scim:schemas:core:2.0:User"],"id":"42"}''\<close>

definition example_schemas :: "string \<Rightarrow> string slice \<Rightarrow> string slice option" where
  "example_schemas data old =
     (if data = ''{}'' then Some old
      else if data = example_Error_body
        then Some (Some [''urn:ietf:params:scim:api:messages:2.0:Error''])
      else if data = example_User_body
        then Some (Some [''urn:ietf:params:scim:schemas:core:2.0:User''])
      else None)"

definition example_SyntaxError :: error where
  "example_SyntaxError = Error ''unexpected end of JSON input''"

definition example_lib :: lib where
  "example_lib =
     \<lparr>url_Parse = example_Parse,
      URL_Query = (\<lambda>u. []),
      URL_String = (\<lambda>u. URL.Path u @ ''?'' @ RawQuery u),
      strconv_Quote = (\<lambda>s. [CHR 0x22] @ s @ [CHR 0x22]),
      Unmarshal_UserResponse = (\<lambda>data v.
        case example_schemas data (UserResponse.Schemas v) of
          None \<Rightarrow> (v, Some example_SyntaxError)
        | Some xs \<Rightarrow> (v\<lparr>UserResponse.Schemas := xs\<rparr>, None)),
      Unmarshal_UsersResponse = (\<lambda>data v.
        case example_schemas data (UsersResponse.Schemas v) of
          None \<Rightarrow> (v, Some example_SyntaxError)
        | Some xs \<Rightarrow> (v\<lparr>UsersResponse.Schemas := xs\<rparr>, None)),
      Unmarshal_UserErrorResponse = (\<lambda>data v.
        case example_schemas data (UserErrorResponse.Schemas v) of
          None \<Rightarrow> (v, Some example_SyntaxError)
        | Some xs \<Rightarrow> (v\<lparr>UserErrorResponse.Schemas := xs\<rparr>, None)),
      Unmarshal_GroupResponse = (\<lambda>data v.
        case example_schemas data (GroupResponse.Schemas v) of
          None \<Rightarrow> (v, Some example_SyntaxError)
        | Some xs \<Rightarrow> (v\<lparr>GroupResponse.Schemas := xs\<rparr>, None)),
      Unmarshal_GroupsResponse = (\<lambda>data v.
        case example_schemas data (GroupsResponse.Schemas v) of
          None \<Rightarrow> (v, Some example_SyntaxError)
        | Some xs \<Rightarrow> (v\<lparr>GroupsResponse.Schemas := xs\<rparr>, None)),
      Unmarshal_GroupErrorResponse = (\<lambda>data v.
        case example_schemas data (GroupErrorResponse.Schemas v) of
          None \<Rightarrow> (v, Some example_SyntaxError)
        | Some xs \<Rightarrow> (v\<lparr>GroupErrorResponse.Schemas := xs\<rparr>, None))\<rparr>"

text \<open>A network that answers every request with the same status code and body.\<close>

definition example_Client :: "int \<Rightarrow> string \<Rightarrow> Client" where
  "example_Client code body =
     NewClient (\<lambda>req. Inr \<lparr>StatusCode = code, ReadAll_Body = Inr body\<rparr>) ''secret''"

text \<open>The request that reaches the network from \<open>example_Client\<close>.\<close>

definition example_Request :: "string \<Rightarrow> string \<Rightarrow> string \<Rightarrow> string option \<Rightarrow> Request" where
  "example_Request method path query body =
     \<lparr>Method = method,
      URL = \<lparr>Scheme = [], Opaque = [], Host = [],
             Path = ''https://scim-provisioning.service.newrelic.com/scim/v2/'' @ path,
             RawPath = [], RawQuery = query, Fragment = []\<rparr>,
      Header = [(''Authorization'', [''Bearer secret'']),
                (''Content-Type'', [''application/json''])],
      Body = body\<rparr>"

section \<open>The transport and the shared tail of the operations\<close>

lemma doRequest_eq: "doRequest c req = (exchange c req, [HttpDo (with_headers c req)])"
  by (simp add: exchange_def doRequest_def with_headers_def Let_def)

lemma exchange_eq:
  "exchange c req =
     (case Do (HttpClient c) (with_headers c req) of
        Inl err \<Rightarrow> Inl err
      | Inr resp \<Rightarrow>
          (case ReadAll_Body resp of
             Inl err \<Rightarrow> Inl err
           | Inr body \<Rightarrow>
               if 200 \<le> StatusCode resp \<and> StatusCode resp \<le> 299 then Inr body
               else Inl (status_error body (StatusCode resp))))"
  by (simp add: exchange_def doRequest_def with_headers_def status_error_def Let_def split: sum.splits)

lemma UserList_factor:
  "UserList lib c =
     (case NewRequest lib ''Get'' (BaseUrl c @ ''Users'') None of
        Inl err \<Rightarrow> (Returned zero_UsersResponse zero_UserErrorResponse (Some err), [])
      | Inr req \<Rightarrow>
          (finish (\<lambda>d. Unmarshal_UsersResponse lib d zero_UsersResponse) UsersResponse.Schemas
             (\<lambda>d. Unmarshal_UserErrorResponse lib d zero_UserErrorResponse)
             zero_UsersResponse zero_UserErrorResponse (exchange c req),
           [HttpDo (with_headers c req)]))"
  by (simp add: UserList_def finish_def doRequest_eq userPath_def groupPath_def Let_def 
      split: sum.split prod.split option.split)

lemma GetUserByID_factor:
  "GetUserByID lib c userID =
     (case NewRequest lib ''GET'' (BaseUrl c @ ''Users/'' @ userID) None of
        Inl err \<Rightarrow> (Returned zero_UserResponse zero_UserErrorResponse (Some err), [])
      | Inr req \<Rightarrow>
          (finish (\<lambda>d. Unmarshal_UserResponse lib d zero_UserResponse) UserResponse.Schemas
             (\<lambda>d. Unmarshal_UserErrorResponse lib d zero_UserErrorResponse)
             zero_UserResponse zero_UserErrorResponse (exchange c req),
           [HttpDo (with_headers c req)]))"
  by (simp add: GetUserByID_def finish_def doRequest_eq userPath_def groupPath_def Let_def 
      split: sum.split prod.split option.split)

lemma GetUserByName_factor:
  "GetUserByName lib c userName =
     (case NewRequest lib ''GET'' (BaseUrl c @ ''Users'') None of
        Inl err \<Rightarrow> (Returned zero_UserResponse zero_UserErrorResponse (Some err), [])
      | Inr req \<Rightarrow>
          (finish (\<lambda>d. Unmarshal_UserResponse lib d zero_UserResponse) UserResponse.Schemas
             (\<lambda>d. Unmarshal_UserErrorResponse lib d zero_UserErrorResponse)
             zero_UserResponse zero_UserErrorResponse (exchange c (filtered lib ''userName'' userName req)),
           [Println (''userName'' @ '' eq '' @ [CHR 0x22] @ userName @ [CHR 0x22]),
            Println (URL_String lib (URL (filtered lib ''userName'' userName req))),
            HttpDo (with_headers c (filtered lib ''userName'' userName req))]))"
  by (simp add: GetUserByName_def finish_def doRequest_eq userPath_def groupPath_def Let_def filtered_def
      split: sum.split prod.split option.split)

lemma CreateUser_factor:
  "CreateUser lib c user =
     (case NewRequest lib ''POST'' (BaseUrl c @ ''Users'') (Some (Marshal_User (User_fill_defaults user))) of
        Inl err \<Rightarrow> (Returned zero_UserResponse zero_UserErrorResponse (Some err), [])
      | Inr req \<Rightarrow>
          (finish (\<lambda>d. Unmarshal_UserResponse lib d zero_UserResponse) UserResponse.Schemas
             (\<lambda>d. Unmarshal_UserErrorResponse lib d zero_UserErrorResponse)
             zero_UserResponse zero_UserErrorResponse (exchange c req),
           [HttpDo (with_headers c req)]))"
  by (simp add: CreateUser_def finish_def doRequest_eq userPath_def groupPath_def Let_def 
      split: sum.split prod.split option.split)

lemma UpdateUser_factor:
  "UpdateUser lib c userID user =
     (case NewRequest lib ''PUT'' (BaseUrl c @ ''Users/'' @ userID) (Some (Marshal_User (User_fill_defaults user))) of
        Inl err \<Rightarrow> (Returned zero_UserResponse zero_UserErrorResponse (Some err), [])
      | Inr req \<Rightarrow>
          (finish (\<lambda>d. Unmarshal_UserResponse lib d zero_UserResponse) UserResponse.Schemas
             (\<lambda>d. Unmarshal_UserErrorResponse lib d zero_UserErrorResponse)
             zero_UserResponse zero_UserErrorResponse (exchange c req),
           [HttpDo (with_headers c req)]))"
  by (simp add: UpdateUser_def finish_def doRequest_eq userPath_def groupPath_def Let_def 
      split: sum.split prod.split option.split)

lemma ChangeUserType_factor:
  "ChangeUserType lib c userID userType =
     (case NewRequest lib ''PUT'' (BaseUrl c @ ''Users/'' @ userID) (Some (UserType_body userType)) of
        Inl err \<Rightarrow> (Returned zero_UserResponse zero_UserErrorResponse (Some err), [])
      | Inr req \<Rightarrow>
          (finish (\<lambda>d. Unmarshal_UserResponse lib d zero_UserResponse) UserResponse.Schemas
             (\<lambda>d. Unmarshal_UserErrorResponse lib d zero_UserErrorResponse)
             zero_UserResponse zero_UserErrorResponse (exchange c req),
           [HttpDo (with_headers c req)]))"
  by (simp add: ChangeUserType_def finish_def doRequest_eq userPath_def groupPath_def Let_def UserType_body_def
      split: sum.split prod.split option.split)

lemma CreateGroup_factor:
  "CreateGroup lib c groupName =
     (case NewRequest lib ''POST'' (BaseUrl c @ ''Groups'') (Some (Group_body groupName)) of
        Inl err \<Rightarrow> (Returned zero_GroupResponse zero_GroupErrorResponse (Some err), [])
      | Inr req \<Rightarrow>
          (finish (\<lambda>d. Unmarshal_GroupResponse lib d zero_GroupResponse) GroupResponse.Schemas
             (\<lambda>d. Unmarshal_GroupErrorResponse lib d zero_GroupErrorResponse)
             zero_GroupResponse zero_GroupErrorResponse (exchange c req),
           [HttpDo (with_headers c req)]))"
  by (simp add: CreateGroup_def finish_def doRequest_eq userPath_def groupPath_def Let_def Group_body_def
      split: sum.split prod.split option.split)

lemma UpdateGroup_factor:
  "UpdateGroup lib c groupName =
     (case NewRequest lib ''PUT'' (BaseUrl c @ ''Groups'') (Some (Group_body groupName)) of
        Inl err \<Rightarrow> (Returned zero_GroupResponse zero_GroupErrorResponse (Some err), [])
      | Inr req \<Rightarrow>
          (finish (\<lambda>d. Unmarshal_GroupResponse lib d zero_GroupResponse) GroupResponse.Schemas
             (\<lambda>d. Unmarshal_GroupErrorResponse lib d zero_GroupErrorResponse)
             zero_GroupResponse zero_GroupErrorResponse (exchange c req),
           [HttpDo (with_headers c req)]))"
  by (simp add: UpdateGroup_def finish_def doRequest_eq userPath_def groupPath_def Let_def Group_body_def
      split: sum.split prod.split option.split)

lemma GroupList_factor:
  "GroupList lib c =
     (case NewRequest lib ''Get'' (BaseUrl c @ ''Groups'') None of
        Inl err \<Rightarrow> (Returned zero_GroupsResponse zero_GroupErrorResponse (Some err), [])
      | Inr req \<Rightarrow>
          (finish (\<lambda>d. Unmarshal_GroupsResponse lib d zero_GroupsResponse) GroupsResponse.Schemas
             (\<lambda>d. Unmarshal_GroupErrorResponse lib d zero_GroupErrorResponse)
             zero_GroupsResponse zero_GroupErrorResponse (exchange c req),
           [HttpDo (with_headers c req)]))"
  by (simp add: GroupList_def finish_def doRequest_eq userPath_def groupPath_def Let_def 
      split: sum.split prod.split option.split)

lemma GetGroupByID_factor:
  "GetGroupByID lib c groupID =
     (case NewRequest lib ''GET'' (BaseUrl c @ ''Groups/'' @ groupID) None of
        Inl err \<Rightarrow> (Returned zero_GroupsResponse zero_GroupErrorResponse (Some err), [])
      | Inr req \<Rightarrow>
          (finish (\<lambda>d. Unmarshal_GroupsResponse lib d zero_GroupsResponse) GroupsResponse.Schemas
             (\<lambda>d. Unmarshal_GroupErrorResponse lib d zero_GroupErrorResponse)
             zero_GroupsResponse zero_GroupErrorResponse (exchange c req),
           [HttpDo (with_headers c req)]))"
  by (simp add: GetGroupByID_def finish_def doRequest_eq userPath_def groupPath_def Let_def 
      split: sum.split prod.split option.split)

lemma GetGroupByName_factor:
  "GetGroupByName lib c groupName =
     (case NewRequest lib ''GET'' (BaseUrl c @ ''Groups'') None of
        Inl err \<Rightarrow> (Returned zero_GroupsResponse zero_GroupErrorResponse (Some err), [])
      | Inr req \<Rightarrow>
          (finish (\<lambda>d. Unmarshal_GroupsResponse lib d zero_GroupsResponse) GroupsResponse.Schemas
             (\<lambda>d. Unmarshal_GroupErrorResponse lib d zero_GroupErrorResponse)
             zero_GroupsResponse zero_GroupErrorResponse (exchange c (filtered lib ''displayName'' groupName req)),
           [Println (''displayName'' @ '' eq '' @ [CHR 0x22] @ groupName @ [CHR 0x22]),
            Println (URL_String lib (URL (filtered lib ''displayName'' groupName req))),
            HttpDo (with_headers c (filtered lib ''displayName'' groupName req))]))"
  by (simp add: GetGroupByName_def finish_def doRequest_eq userPath_def groupPath_def Let_def filtered_def
      split: sum.split prod.split option.split)

lemma GroupMemberOps_factor:
  "GroupMemberOps lib c groupID userID operation =
     (case NewRequest lib ''PATCH'' (BaseUrl c @ ''Groups/'' @ groupID) (Some (Patch_body userID operation)) of
        Inl err \<Rightarrow> (Returned zero_GroupResponse zero_GroupErrorResponse (Some err), [])
      | Inr req \<Rightarrow>
          (finish (\<lambda>d. Unmarshal_GroupResponse lib d zero_GroupResponse) GroupResponse.Schemas
             (\<lambda>d. Unmarshal_GroupErrorResponse lib d zero_GroupErrorResponse)
             zero_GroupResponse zero_GroupErrorResponse (exchange c req),
           [HttpDo (with_headers c req)]))"
  by (simp add: GroupMemberOps_def finish_def doRequest_eq userPath_def groupPath_def Let_def Patch_body_def
      split: sum.split prod.split option.split)

lemma DeleteUser_factor:
  "DeleteUser lib c userID =
     (case NewRequest lib ''DELETE'' (BaseUrl c @ ''Users/'' @ userID) None of
        Inl err \<Rightarrow> (Some err, [])
      | Inr req \<Rightarrow>
          ((case exchange c req of Inl err \<Rightarrow> Some err | Inr resp \<Rightarrow> None),
           [HttpDo (with_headers c req)]))"
  by (simp add: DeleteUser_def doRequest_eq userPath_def split: sum.split)

lemma DeleteGroup_factor:
  "DeleteGroup lib c groupID =
     (case NewRequest lib ''DELETE'' (BaseUrl c @ ''Groups/'' @ groupID) None of
        Inl err \<Rightarrow> (Some err, [])
      | Inr req \<Rightarrow>
          ((case exchange c req of Inl err \<Rightarrow> Some err | Inr resp \<Rightarrow> None),
           [HttpDo (with_headers c req)]))"
  by (simp add: DeleteGroup_def doRequest_eq groupPath_def split: sum.split)

lemma finish_Inl: "finish ds sch de zs ze (Inl err) = Returned zs ze (Some err)"
  by (simp add: finish_def)

lemma finish_empty:
  assumes "ds body = (s, None)" and "len (sch s) = 0"
  shows "finish ds sch de zs ze (Inr body) = Panicked (IndexOutOfRange 0 0)"
  using assms by (simp add: finish_def index_def)

lemma finish_first:
  assumes "ds body = (s, None)" and "index (sch s) 0 = Inr x" and "de body = (e, err)"
    and "x = ''urn:ietf:params:scim:api:messages:2.0:Error'' \<longrightarrow> err = None"
  shows "finish ds sch de zs ze (Inr body) =
     Returned s (if x = ''urn:ietf:params:scim:api:messages:2.0:Error'' then e else ze) None"
  using assms by (simp add: finish_def)

lemma finish_tagged:
  assumes "\<And>s. sch' (f s) = sch s"
  shows "map_outcome f g (finish ds sch de zs ze r) =
     finish (\<lambda>d. map_prod f id (ds d)) sch' (\<lambda>d. map_prod g id (de d)) (f zs) (g ze) r"
proof (cases r)
  case (Inl err)
  then show ?thesis by (simp add: finish_def)
next
  case (Inr body)
  obtain s serr where ds: "ds body = (s, serr)" by (cases "ds body")
  obtain e eerr where de: "de body = (e, eerr)" by (cases "de body")
  show ?thesis
    using Inr ds de assms
    by (simp add: finish_def split: option.split sum.split)
qed

lemma decode_shape_eq:
  "decode_shape lib One_User = (\<lambda>d. map_prod A_UserResponse id (Unmarshal_UserResponse lib d zero_UserResponse))"
  "decode_shape lib Many_Users = (\<lambda>d. map_prod A_UsersResponse id (Unmarshal_UsersResponse lib d zero_UsersResponse))"
  "decode_shape lib One_Group = (\<lambda>d. map_prod A_GroupResponse id (Unmarshal_GroupResponse lib d zero_GroupResponse))"
  "decode_shape lib Many_Groups = (\<lambda>d. map_prod A_GroupsResponse id (Unmarshal_GroupsResponse lib d zero_GroupsResponse))"
  by (simp_all add: fun_eq_iff)

lemma decode_error_shape_eq:
  "decode_error_shape lib One_User = (\<lambda>d. map_prod A_UserErrorResponse id (Unmarshal_UserErrorResponse lib d zero_UserErrorResponse))"
  "decode_error_shape lib Many_Users = (\<lambda>d. map_prod A_UserErrorResponse id (Unmarshal_UserErrorResponse lib d zero_UserErrorResponse))"
  "decode_error_shape lib One_Group = (\<lambda>d. map_prod A_GroupErrorResponse id (Unmarshal_GroupErrorResponse lib d zero_GroupErrorResponse))"
  "decode_error_shape lib Many_Groups = (\<lambda>d. map_prod A_GroupErrorResponse id (Unmarshal_GroupErrorResponse lib d zero_GroupErrorResponse))"
  by (simp_all add: fun_eq_iff)

lemma tagged_One_User:
  "tagged A_UserResponse A_UserErrorResponse
     (finish (\<lambda>d. Unmarshal_UserResponse lib d zero_UserResponse) UserResponse.Schemas
        (\<lambda>d. Unmarshal_UserErrorResponse lib d zero_UserErrorResponse)
        zero_UserResponse zero_UserErrorResponse r, evs) = (respond lib One_User r, evs)"
  by (simp add: tagged_def respond_def decode_shape_eq decode_error_shape_eq
      finish_tagged [where sch' = shape_Schemas])

lemma tagged_Many_Users:
  "tagged A_UsersResponse A_UserErrorResponse
     (finish (\<lambda>d. Unmarshal_UsersResponse lib d zero_UsersResponse) UsersResponse.Schemas
        (\<lambda>d. Unmarshal_UserErrorResponse lib d zero_UserErrorResponse)
        zero_UsersResponse zero_UserErrorResponse r, evs) = (respond lib Many_Users r, evs)"
  by (simp add: tagged_def respond_def decode_shape_eq decode_error_shape_eq
      finish_tagged [where sch' = shape_Schemas])

lemma tagged_One_Group:
  "tagged A_GroupResponse A_GroupErrorResponse
     (finish (\<lambda>d. Unmarshal_GroupResponse lib d zero_GroupResponse) GroupResponse.Schemas
        (\<lambda>d. Unmarshal_GroupErrorResponse lib d zero_GroupErrorResponse)
        zero_GroupResponse zero_GroupErrorResponse r, evs) = (respond lib One_Group r, evs)"
  by (simp add: tagged_def respond_def decode_shape_eq decode_error_shape_eq
      finish_tagged [where sch' = shape_Schemas])

lemma tagged_Many_Groups:
  "tagged A_GroupsResponse A_GroupErrorResponse
     (finish (\<lambda>d. Unmarshal_GroupsResponse lib d zero_GroupsResponse) GroupsResponse.Schemas
        (\<lambda>d. Unmarshal_GroupErrorResponse lib d zero_GroupErrorResponse)
        zero_GroupsResponse zero_GroupErrorResponse r, evs) = (respond lib Many_Groups r, evs)"
  by (simp add: tagged_def respond_def decode_shape_eq decode_error_shape_eq
      finish_tagged [where sch' = shape_Schemas])

lemma tagged_failed:
  "tagged A_UserResponse A_UserErrorResponse (Returned zero_UserResponse zero_UserErrorResponse err, evs)
     = (Returned (zero_shape One_User) (zero_error_shape One_User) err, evs)"
  "tagged A_UsersResponse A_UserErrorResponse (Returned zero_UsersResponse zero_UserErrorResponse err, evs)
     = (Returned (zero_shape Many_Users) (zero_error_shape Many_Users) err, evs)"
  "tagged A_GroupResponse A_GroupErrorResponse (Returned zero_GroupResponse zero_GroupErrorResponse err, evs)
     = (Returned (zero_shape One_Group) (zero_error_shape One_Group) err, evs)"
  "tagged A_GroupsResponse A_GroupErrorResponse (Returned zero_GroupsResponse zero_GroupErrorResponse err, evs)
     = (Returned (zero_shape Many_Groups) (zero_error_shape Many_Groups) err, evs)"
  by (simp_all add: tagged_def)

lemmas tagged_simps = tagged_One_User tagged_Many_Users tagged_One_Group tagged_Many_Groups
  tagged_failed

lemmas factor_simps = UserList_factor GetUserByID_factor GetUserByName_factor CreateUser_factor
  UpdateUser_factor ChangeUserType_factor CreateGroup_factor UpdateGroup_factor GroupList_factor
  GetGroupByID_factor GetGroupByName_factor GroupMemberOps_factor AddUserToGroup_def
  RemoveUserToGroup_def

lemma invoke_cases:
  "(\<exists>err. invoke lib c k =
       (Returned (zero_shape (kind_of k)) (zero_error_shape (kind_of k)) (Some err), []))
   \<or> (\<exists>printed req0. invoke lib c k =
       (respond lib (kind_of k) (exchange c req0), printed @ [HttpDo (with_headers c req0)]))"
proof (cases k)
  case UserList_call
  then show ?thesis
    by (simp add: factor_simps tagged_simps split: sum.split) blast
next
  case (GetUserByName_call n)
  then show ?thesis
    by (simp add: factor_simps tagged_simps split: sum.split) metis
next
  case (GetGroupByName_call n)
  then show ?thesis
    by (simp add: factor_simps tagged_simps split: sum.split) metis
qed ((simp add: factor_simps tagged_simps split: sum.split), blast)+

lemma invoke_reached:
  assumes "snd (invoke lib c k) = evs @ [HttpDo req]"
  obtains req0 where "req = with_headers c req0"
    and "fst (invoke lib c k) = respond lib (kind_of k) (exchange c req0)"
proof -
  from invoke_cases [of lib c k] assms
  obtain printed req0 where
    inv: "invoke lib c k =
      (respond lib (kind_of k) (exchange c req0), printed @ [HttpDo (with_headers c req0)])"
    by auto
  with assms have "printed @ [HttpDo (with_headers c req0)] = evs @ [HttpDo req]"
    by simp
  then have "req = with_headers c req0"
    by simp
  with inv that show thesis
    by simp
qed

lemma exchange_2xx:
  assumes "Do (HttpClient c) (with_headers c req0) = Inr resp"
    and "ReadAll_Body resp = Inr body"
    and "200 \<le> StatusCode resp" and "StatusCode resp \<le> 299"
  shows "exchange c req0 = Inr body"
  using assms by (simp add: exchange_eq)

lemma exchange_status:
  assumes "Do (HttpClient c) (with_headers c req0) = Inr resp"
    and "ReadAll_Body resp = Inr body"
    and "\<not> (200 \<le> StatusCode resp \<and> StatusCode resp \<le> 299)"
  shows "exchange c req0 = Inl (status_error body (StatusCode resp))"
  using assms by (simp add: exchange_eq)

lemma respond_empty:
  assumes "decode_shape lib kd body = (s, None)" and "len (shape_Schemas s) = 0"
  shows "respond lib kd (Inr body) = Panicked (IndexOutOfRange 0 0)"
  using assms by (simp add: respond_def finish_def index_def)

lemma respond_first:
  assumes "decode_shape lib kd body = (s, None)" and "index (shape_Schemas s) 0 = Inr x"
    and "decode_error_shape lib kd body = (e, err)"
    and "x = ''urn:ietf:params:scim:api:messages:2.0:Error'' \<longrightarrow> err = None"
  shows "respond lib kd (Inr body) =
     Returned s (if x = ''urn:ietf:params:scim:api:messages:2.0:Error'' then e
                 else zero_error_shape kd) None"
  using assms by (simp add: respond_def finish_def)

lemma respond_Inl:
  "respond lib kd (Inl err) = Returned (zero_shape kd) (zero_error_shape kd) (Some err)"
  by (simp add: respond_def finish_def)

lemma respond_returned_nil:
  assumes "decode_shape lib kd body = (s, None)"
    and "decode_error_shape lib kd body = (e, err)"
    and "respond lib kd (Inr body) = Returned s' e' None"
  shows "s' = s"
    and "index (shape_Schemas s) 0 = Inr ''urn:ietf:params:scim:api:messages:2.0:Error'' \<Longrightarrow> e' = e"
    and "index (shape_Schemas s) 0 \<noteq> Inr ''urn:ietf:params:scim:api:messages:2.0:Error''
      \<Longrightarrow> e' = zero_error_shape kd"
  using assms
  by (auto simp: respond_def finish_def split: sum.splits option.splits if_splits)

lemma nonempty_not_zero:
  assumes "index (error_shape_Schemas e) 0 = Inr x"
  shows "\<not> is_zero_error_shape e"
  using assms
  by (cases e)
    (auto simp: is_zero_error_shape_def index_def len_def zero_UserErrorResponse_def
      zero_GroupErrorResponse_def split: if_splits)

lemma zero_is_zero: "is_zero_error_shape (zero_error_shape kd)"
  by (cases kd) (simp_all add: is_zero_error_shape_def)

lemma valid_methods:
  "validMethod ''Get''" "validMethod ''GET''" "validMethod ''POST''" "validMethod ''PUT''"
  "validMethod ''PATCH''" "validMethod ''DELETE''"
  by code_simp+

lemma NewRequest_ok:
  assumes "url_Parse lib url = Inr u" and "validMethod m"
  shows "NewRequest lib m url body =
     Inr \<lparr>Method = m, URL = u\<lparr>Host := removeEmptyPort (Host u)\<rparr>, Header = [], Body = body\<rparr>"
  using assms by (auto simp: NewRequest_def validMethod_def)

lemma canonical_keys:
  "CanonicalMIMEHeaderKey ''Authorization'' = ''Authorization''"
  "CanonicalMIMEHeaderKey ''content-type'' = ''Content-Type''"
  by code_simp+

lemma with_headers_fresh:
  "with_headers c \<lparr>Method = m, URL = u, Header = [], Body = b\<rparr> =
     \<lparr>Method = m, URL = u,
      Header = [(''Authorization'', [''Bearer '' @ ApiToken c]),
                (''Content-Type'', [''application/json''])],
      Body = b\<rparr>"
  by (simp add: with_headers_def Header_Set_def canonical_keys)

lemma json_literals:
  \<open>json_string ''urn:ietf:params:scim:schemas:core:2.0:User''
     = ''"urn:ietf:params:scim:schemas:core:2.0:User"''\<close>
  \<open>json_string ''Europe/Istanbul'' = ''"Europe/Istanbul"''\<close>
  \<open>json_string ''urn:ietf:params:scim:api:messages:2.0:PatchOp''
     = ''"urn:ietf:params:scim:api:messages:2.0:PatchOp"''\<close>
  by code_simp+

section \<open>Default filling\<close>

text \<open>
  Claim C3. For each of the four types that fill defaults (User, Group, UserTypeBody,
  UpdateGroup) and every value: filling twice is the same as filling once; a schema list
  that is not empty is left as it is; the entries the caller supplied stay, in their
  order, at the front of the list; and no other field changes, a time zone of a User that
  is not empty included.
\<close>

theorem fill_defaults_idempotent_and_preserving:
  "User_fill_defaults (User_fill_defaults u) = User_fill_defaults u
   \<and> Group_fill_defaults (Group_fill_defaults g) = Group_fill_defaults g
   \<and> UserTypeBody_fill_defaults (UserTypeBody_fill_defaults b) = UserTypeBody_fill_defaults b
   \<and> UpdateGroup_fill_defaults (UpdateGroup_fill_defaults ug) = UpdateGroup_fill_defaults ug
   \<and> (len (User.Schemas u) \<noteq> 0 \<longrightarrow> User.Schemas (User_fill_defaults u) = User.Schemas u)
   \<and> (len (Group.Schemas g) \<noteq> 0 \<longrightarrow> Group.Schemas (Group_fill_defaults g) = Group.Schemas g)
   \<and> (len (UserTypeBody.Schemas b) \<noteq> 0 \<longrightarrow>
        UserTypeBody.Schemas (UserTypeBody_fill_defaults b) = UserTypeBody.Schemas b)
   \<and> (len (UpdateGroup.Schemas ug) \<noteq> 0 \<longrightarrow>
        UpdateGroup.Schemas (UpdateGroup_fill_defaults ug) = UpdateGroup.Schemas ug)
   \<and> (\<forall>xs. User.Schemas u = Some xs \<longrightarrow>
          (\<exists>ys. User.Schemas (User_fill_defaults u) = Some (xs @ ys)))
   \<and> (\<forall>xs. Group.Schemas g = Some xs \<longrightarrow>
          (\<exists>ys. Group.Schemas (Group_fill_defaults g) = Some (xs @ ys)))
   \<and> (\<forall>xs. UserTypeBody.Schemas b = Some xs \<longrightarrow>
          (\<exists>ys. UserTypeBody.Schemas (UserTypeBody_fill_defaults b) = Some (xs @ ys)))
   \<and> (\<forall>xs. UpdateGroup.Schemas ug = Some xs \<longrightarrow>
          (\<exists>ys. UpdateGroup.Schemas (UpdateGroup_fill_defaults ug) = Some (xs @ ys)))
   \<and> User.UserName (User_fill_defaults u) = User.UserName u
   \<and> User.Name (User_fill_defaults u) = User.Name u
   \<and> User.Emails (User_fill_defaults u) = User.Emails u
   \<and> User.Active (User_fill_defaults u) = User.Active u
   \<and> (User.Timezone u \<noteq> [] \<longrightarrow> User.Timezone (User_fill_defaults u) = User.Timezone u)
   \<and> Group.DisplayName (Group_fill_defaults g) = Group.DisplayName g
   \<and> UrnIetfParamsScimSchemasExtensionNewrelic21User (UserTypeBody_fill_defaults b)
       = UrnIetfParamsScimSchemasExtensionNewrelic21User b
   \<and> Operations (UpdateGroup_fill_defaults ug) = Operations ug"
  by (simp add: User_fill_defaults_def Group_fill_defaults_def UserTypeBody_fill_defaults_def
      UpdateGroup_fill_defaults_def len_def Let_def split: option.split)

theorem fill_defaults_witness:
  "len (User.Schemas \<lparr>User.Schemas = Some [''urn:custom:User''], UserName = ''jdoe'',
       Name = zero_Name, Emails = None, Active = True, Timezone = ''UTC''\<rparr>) \<noteq> 0
   \<and> User_fill_defaults \<lparr>User.Schemas = Some [''urn:custom:User''], UserName = ''jdoe'',
       Name = zero_Name, Emails = None, Active = True, Timezone = ''UTC''\<rparr>
     = \<lparr>User.Schemas = Some [''urn:custom:User''], UserName = ''jdoe'',
       Name = zero_Name, Emails = None, Active = True, Timezone = ''UTC''\<rparr>
   \<and> len (Group.Schemas \<lparr>Group.Schemas = Some [''urn:custom:Group''],
       DisplayName = ''Admins''\<rparr>) \<noteq> 0
   \<and> Group.Schemas (Group_fill_defaults \<lparr>Group.Schemas = Some [''urn:custom:Group''],
       DisplayName = ''Admins''\<rparr>) = Some [''urn:custom:Group'']
   \<and> len (UserTypeBody.Schemas \<lparr>UserTypeBody.Schemas = Some [''urn:custom:Type''],
       UrnIetfParamsScimSchemasExtensionNewrelic21User = \<lparr>NrUserType = ''Core User''\<rparr>\<rparr>) \<noteq> 0
   \<and> UserTypeBody.Schemas (UserTypeBody_fill_defaults
       \<lparr>UserTypeBody.Schemas = Some [''urn:custom:Type''],
        UrnIetfParamsScimSchemasExtensionNewrelic21User = \<lparr>NrUserType = ''Core User''\<rparr>\<rparr>)
     = Some [''urn:custom:Type'']
   \<and> len (UpdateGroup.Schemas \<lparr>UpdateGroup.Schemas = Some [''urn:custom:Patch''],
       Operations = None\<rparr>) \<noteq> 0
   \<and> UpdateGroup.Schemas (UpdateGroup_fill_defaults
       \<lparr>UpdateGroup.Schemas = Some [''urn:custom:Patch''], Operations = None\<rparr>)
     = Some [''urn:custom:Patch'']"
  using fill_defaults_idempotent_and_preserving
    [of "\<lparr>User.Schemas = Some [''urn:custom:User''], UserName = ''jdoe'',
          Name = zero_Name, Emails = None, Active = True, Timezone = ''UTC''\<rparr>"
        "\<lparr>Group.Schemas = Some [''urn:custom:Group''], DisplayName = ''Admins''\<rparr>"
        "\<lparr>UserTypeBody.Schemas = Some [''urn:custom:Type''],
          UrnIetfParamsScimSchemasExtensionNewrelic21User = \<lparr>NrUserType = ''Core User''\<rparr>\<rparr>"
        "\<lparr>UpdateGroup.Schemas = Some [''urn:custom:Patch''], Operations = None\<rparr>"]
  by (simp add: len_def User_fill_defaults_def)

section \<open>Running the operations on the stand-in library\<close>

lemma example_NewRequest:
  assumes "validMethod m"
  shows "NewRequest example_lib m url body =
     Inr \<lparr>Method = m,
          URL = \<lparr>Scheme = [], Opaque = [], Host = [], Path = url, RawPath = [], RawQuery = [],
                 Fragment = []\<rparr>,
          Header = [], Body = body\<rparr>"
  using assms
  by (simp add: NewRequest_ok [where u = "\<lparr>Scheme = [], Opaque = [], Host = [], Path = url,
        RawPath = [], RawQuery = [], Fragment = []\<rparr>"]
      example_lib_def example_Parse_def removeEmptyPort_def)

lemma example_Client_simps:
  "BaseUrl (example_Client code body) = ''https://scim-provisioning.service.newrelic.com/scim/v2/''"
  "ApiToken (example_Client code body) = ''secret''"
  "Do (HttpClient (example_Client code body)) req = Inr \<lparr>StatusCode = code, ReadAll_Body = Inr body\<rparr>"
  by (simp_all add: example_Client_def NewClient_def)

lemma example_with_headers:
  "with_headers (example_Client code body)
     \<lparr>Method = m,
      URL = \<lparr>Scheme = [], Opaque = [], Host = [],
             Path = ''https://scim-provisioning.service.newrelic.com/scim/v2/'' @ path,
             RawPath = [], RawQuery = q, Fragment = []\<rparr>,
      Header = [], Body = b\<rparr> = example_Request m path q b"
  by (simp add: with_headers_fresh example_Request_def example_Client_simps)

lemma example_sent_GetUserByID:
  "snd (invoke example_lib (example_Client code body) (GetUserByID_call ''42'')) =
     [] @ [HttpDo (example_Request ''GET'' ''Users/42'' [] None)]"
  by (simp add: GetUserByID_factor example_NewRequest valid_methods example_Client_simps
      tagged_def example_with_headers [where path = "''Users/42''", simplified])

lemma example_decode_Error_body:
  "decode_shape example_lib One_User example_Error_body =
     (A_UserResponse (zero_UserResponse\<lparr>UserResponse.Schemas :=
        Some [''urn:ietf:params:scim:api:messages:2.0:Error'']\<rparr>), None)"
  "decode_error_shape example_lib One_User example_Error_body =
     (A_UserErrorResponse (zero_UserErrorResponse\<lparr>UserErrorResponse.Schemas :=
        Some [''urn:ietf:params:scim:api:messages:2.0:Error'']\<rparr>), None)"
  by (simp_all add: example_lib_def example_schemas_def example_Error_body_def)

lemma example_decode_User_body:
  "decode_shape example_lib One_User example_User_body =
     (A_UserResponse (zero_UserResponse\<lparr>UserResponse.Schemas :=
        Some [''urn:ietf:params:scim:schemas:core:2.0:User'']\<rparr>), None)"
  "decode_error_shape example_lib One_User example_User_body =
     (A_UserErrorResponse (zero_UserErrorResponse\<lparr>UserErrorResponse.Schemas :=
        Some [''urn:ietf:params:scim:schemas:core:2.0:User'']\<rparr>), None)"
  by (simp_all add: example_lib_def example_schemas_def example_User_body_def example_Error_body_def)

lemma example_decode_empty_object:
  "decode_shape example_lib One_User ''{}'' = (A_UserResponse zero_UserResponse, None)"
  by (simp add: example_lib_def example_schemas_def zero_UserResponse_def)

lemma example_sent_DeleteUser:
  "snd (DeleteUser example_lib (example_Client code body) ''42'') =
     [HttpDo (example_Request ''DELETE'' ''Users/42'' [] None)]"
  by (simp add: DeleteUser_factor example_NewRequest valid_methods example_Client_simps
      example_with_headers [where path = "''Users/42''", simplified])

lemma example_sent_DeleteGroup:
  "snd (DeleteGroup example_lib (example_Client code body) ''7'') =
     [HttpDo (example_Request ''DELETE'' ''Groups/7'' [] None)]"
  by (simp add: DeleteGroup_factor example_NewRequest valid_methods example_Client_simps
      example_with_headers [where path = "''Groups/7''", simplified])

lemma format_d_404: "format_d 404 = ''404''"
  by (simp add: format_d_def)

section \<open>Error detection in a response\<close>

text \<open>
  Claim C1. Take any operation that parses a response body. Suppose the request reached
  the network, the response has a status from 200 to 299 and its body was read, and the
  body decodes into the success shape without error. The two decodes read the same
  \<^verbatim>\<open>schemas\<close> key of the same bytes, so the schema list that the decode into the error shape
  gives is that of the success shape. Then, whenever the operation returns a nil error,
  it returns the decoded success shape, and the error shape it returns is not the zero
  value if and only if the first entry of the decoded schema list is
  \<^verbatim>\<open>urn:ietf:params:scim:api:messages:2.0:Error\<close>. And it does return a nil error whenever
  the schema list has a first entry and the decode into the error shape, where it is made,
  succeeds.
\<close>

theorem error_shape_iff_error_schema:
  assumes "snd (invoke lib c k) = evs @ [HttpDo req]"
    and "Do (HttpClient c) req = Inr resp"
    and "ReadAll_Body resp = Inr body"
    and "200 \<le> StatusCode resp" and "StatusCode resp \<le> 299"
    and "decode_shape lib (kind_of k) body = (s, None)"
    and "decode_error_shape lib (kind_of k) body = (e, err)"
    and "error_shape_Schemas e = shape_Schemas s"
  shows "(fst (invoke lib c k) = Returned s' e' None \<longrightarrow>
           s' = s
           \<and> (\<not> is_zero_error_shape e' \<longleftrightarrow>
                index (shape_Schemas s) 0 = Inr ''urn:ietf:params:scim:api:messages:2.0:Error''))
    \<and> (index (shape_Schemas s) 0 = Inr schema0
         \<and> (schema0 = ''urn:ietf:params:scim:api:messages:2.0:Error'' \<longrightarrow> err = None) \<longrightarrow>
           fst (invoke lib c k) =
             Returned s (if schema0 = ''urn:ietf:params:scim:api:messages:2.0:Error'' then e
                         else zero_error_shape (kind_of k)) None)"
proof -
  from assms(1) obtain req0 where req: "req = with_headers c req0"
    and run: "fst (invoke lib c k) = respond lib (kind_of k) (exchange c req0)"
    by (rule invoke_reached)
  have body: "exchange c req0 = Inr body"
    using assms(2-5) req by (simp add: exchange_2xx)
  have returned: "s' = s \<and> (\<not> is_zero_error_shape e' \<longleftrightarrow>
        index (shape_Schemas s) 0 = Inr ''urn:ietf:params:scim:api:messages:2.0:Error'')"
    if nil: "fst (invoke lib c k) = Returned s' e' None"
  proof (cases "index (shape_Schemas s) 0 = Inr ''urn:ietf:params:scim:api:messages:2.0:Error''")
    case True
    from nil run body have r: "respond lib (kind_of k) (Inr body) = Returned s' e' None"
      by simp
    have "e' = e"
      using respond_returned_nil(2) [OF assms(6,7) r True] .
    moreover have "\<not> is_zero_error_shape e"
      using True assms(8) by (simp add: nonempty_not_zero)
    ultimately show ?thesis
      using True respond_returned_nil(1) [OF assms(6,7) r] by simp
  next
    case False
    from nil run body have r: "respond lib (kind_of k) (Inr body) = Returned s' e' None"
      by simp
    have "e' = zero_error_shape (kind_of k)"
      using respond_returned_nil(3) [OF assms(6,7) r False] .
    then show ?thesis
      using False respond_returned_nil(1) [OF assms(6,7) r] by (simp add: zero_is_zero)
  qed
  have returns: "fst (invoke lib c k) =
      Returned s (if schema0 = ''urn:ietf:params:scim:api:messages:2.0:Error'' then e
                  else zero_error_shape (kind_of k)) None"
    if "index (shape_Schemas s) 0 = Inr schema0"
      and "schema0 = ''urn:ietf:params:scim:api:messages:2.0:Error'' \<longrightarrow> err = None"
    using respond_first [OF assms(6) that(1) assms(7) that(2)] run body by simp
  from returned returns show ?thesis
    by blast
qed

theorem error_shape_iff_error_schema_witness:
  "fst (invoke example_lib (example_Client 200 example_Error_body) (GetUserByID_call ''42'')) =
     Returned
       (A_UserResponse (zero_UserResponse\<lparr>UserResponse.Schemas :=
          Some [''urn:ietf:params:scim:api:messages:2.0:Error'']\<rparr>))
       (A_UserErrorResponse (zero_UserErrorResponse\<lparr>UserErrorResponse.Schemas :=
          Some [''urn:ietf:params:scim:api:messages:2.0:Error'']\<rparr>))
       None
   \<and> \<not> is_zero_error_shape (A_UserErrorResponse (zero_UserErrorResponse
          \<lparr>UserErrorResponse.Schemas := Some [''urn:ietf:params:scim:api:messages:2.0:Error'']\<rparr>))
   \<and> fst (invoke example_lib (example_Client 200 example_User_body) (GetUserByID_call ''42'')) =
     Returned
       (A_UserResponse (zero_UserResponse\<lparr>UserResponse.Schemas :=
          Some [''urn:ietf:params:scim:schemas:core:2.0:User'']\<rparr>))
       (A_UserErrorResponse zero_UserErrorResponse)
       None
   \<and> is_zero_error_shape (A_UserErrorResponse zero_UserErrorResponse)"
proof -
  let ?se = "A_UserResponse (zero_UserResponse\<lparr>UserResponse.Schemas :=
          Some [''urn:ietf:params:scim:api:messages:2.0:Error'']\<rparr>)"
  let ?ee = "A_UserErrorResponse (zero_UserErrorResponse\<lparr>UserErrorResponse.Schemas :=
          Some [''urn:ietf:params:scim:api:messages:2.0:Error'']\<rparr>)"
  let ?su = "A_UserResponse (zero_UserResponse\<lparr>UserResponse.Schemas :=
          Some [''urn:ietf:params:scim:schemas:core:2.0:User'']\<rparr>)"
  let ?eu = "A_UserErrorResponse (zero_UserErrorResponse\<lparr>UserErrorResponse.Schemas :=
          Some [''urn:ietf:params:scim:schemas:core:2.0:User'']\<rparr>)"
  have ok: "(200::int) \<le> StatusCode \<lparr>StatusCode = 200, ReadAll_Body = Inr b\<rparr>"
    "StatusCode \<lparr>StatusCode = 200, ReadAll_Body = Inr b\<rparr> \<le> (299::int)"
    "ReadAll_Body \<lparr>StatusCode = (200::int), ReadAll_Body = Inr b\<rparr> = Inr b" for b :: string
    by simp_all
  have first_err: "index (shape_Schemas ?se) 0 = Inr ''urn:ietf:params:scim:api:messages:2.0:Error''"
    by (simp add: index_def len_def)
  have first_user: "index (shape_Schemas ?su) 0 = Inr ''urn:ietf:params:scim:schemas:core:2.0:User''"
    by (simp add: index_def len_def)
  have same: "error_shape_Schemas ?ee = shape_Schemas ?se" "error_shape_Schemas ?eu = shape_Schemas ?su"
    by simp_all
  have a: "kind_of (GetUserByID_call ''42'') = One_User"
    by simp
  note e = error_shape_iff_error_schema
    [OF example_sent_GetUserByID example_Client_simps(3) ok(3) ok(1) ok(2)
      example_decode_Error_body(1) [folded a] example_decode_Error_body(2) [folded a] same(1),
      of ?se ?ee "''urn:ietf:params:scim:api:messages:2.0:Error''"]
  note u = error_shape_iff_error_schema
    [OF example_sent_GetUserByID example_Client_simps(3) ok(3) ok(1) ok(2)
      example_decode_User_body(1) [folded a] example_decode_User_body(2) [folded a] same(2),
      of ?su "A_UserErrorResponse zero_UserErrorResponse"
        "''urn:ietf:params:scim:schemas:core:2.0:User''"]
  have run_e: "fst (invoke example_lib (example_Client 200 example_Error_body)
      (GetUserByID_call ''42'')) = Returned ?se ?ee None"
    using e first_err by simp
  have run_u: "fst (invoke example_lib (example_Client 200 example_User_body)
      (GetUserByID_call ''42'')) = Returned ?su (A_UserErrorResponse zero_UserErrorResponse) None"
    using u first_user by simp
  from e u run_e run_u first_err first_user show ?thesis
    by simp
qed

text \<open>
  Claim C2. Every operation that parses a response body reads the first entry of the
  decoded schema list right after the decode succeeded, with no check of the length. When
  the response has a status from 200 to 299 and its body decodes without error into a shape
  whose schema list is empty, as the body \<^verbatim>\<open>{}\<close> does, the operation panics with an index
  out of range and returns no error value.
\<close>

theorem empty_schema_list_panics:
  assumes "snd (invoke lib c k) = evs @ [HttpDo req]"
    and "Do (HttpClient c) req = Inr resp"
    and "ReadAll_Body resp = Inr body"
    and "200 \<le> StatusCode resp" and "StatusCode resp \<le> 299"
    and "decode_shape lib (kind_of k) body = (s, None)"
    and "len (shape_Schemas s) = 0"
  shows "fst (invoke lib c k) = Panicked (IndexOutOfRange 0 0)"
proof -
  from assms(1) obtain req0 where req: "req = with_headers c req0"
    and run: "fst (invoke lib c k) = respond lib (kind_of k) (exchange c req0)"
    by (rule invoke_reached)
  have "exchange c req0 = Inr body"
    using assms(2-5) req by (simp add: exchange_2xx)
  with run show ?thesis
    using respond_empty [OF assms(6) assms(7)] by simp
qed

theorem empty_schema_list_panics_witness:
  "decode_shape example_lib One_User ''{}'' = (A_UserResponse zero_UserResponse, None)
   \<and> len (shape_Schemas (A_UserResponse zero_UserResponse)) = 0
   \<and> fst (invoke example_lib (example_Client 200 ''{}'') (GetUserByID_call ''42''))
       = Panicked (IndexOutOfRange 0 0)"
proof -
  have empty: "len (shape_Schemas (A_UserResponse zero_UserResponse)) = 0"
    by (simp add: len_def zero_UserResponse_def)
  have a: "kind_of (GetUserByID_call ''42'') = One_User"
    by simp
  have "fst (invoke example_lib (example_Client 200 ''{}'') (GetUserByID_call ''42''))
      = Panicked (IndexOutOfRange 0 0)"
    by (rule empty_schema_list_panics
        [OF example_sent_GetUserByID example_Client_simps(3) _ _ _
          example_decode_empty_object [folded a] empty]) simp_all
  with empty example_decode_empty_object show ?thesis
    by simp
qed

section \<open>A status outside 200 to 299\<close>

text \<open>
  Claim C4. When the response to a request has a status code outside 200 to 299 and its
  body was read, \<^verbatim>\<open>doRequest\<close> returns no body and an error whose message holds the raw
  body and the status code; every operation that sent the request then returns its zero
  success shape, its zero error shape and that error, and the two delete operations return
  that error.
\<close>

theorem non_2xx_status_short_circuits:
  assumes "Do (HttpClient c) req = Inr resp"
    and "ReadAll_Body resp = Inr body"
    and "\<not> (200 \<le> StatusCode resp \<and> StatusCode resp \<le> 299)"
  shows "(with_headers c req0 = req \<longrightarrow>
            doRequest c req0 =
              (Inl (Error (''error body: '' @ body @ [CHR 0x0A] @ ''status Code: ''
                             @ format_d (StatusCode resp))),
               [HttpDo req]))
    \<and> (snd (invoke lib c k) = evs @ [HttpDo req] \<longrightarrow>
          fst (invoke lib c k) =
            Returned (zero_shape (kind_of k)) (zero_error_shape (kind_of k))
              (Some (Error (''error body: '' @ body @ [CHR 0x0A] @ ''status Code: ''
                              @ format_d (StatusCode resp)))))
    \<and> (snd (DeleteUser lib c userID) = [HttpDo req] \<longrightarrow>
          fst (DeleteUser lib c userID) =
            Some (Error (''error body: '' @ body @ [CHR 0x0A] @ ''status Code: ''
                           @ format_d (StatusCode resp))))
    \<and> (snd (DeleteGroup lib c groupID) = [HttpDo req] \<longrightarrow>
          fst (DeleteGroup lib c groupID) =
            Some (Error (''error body: '' @ body @ [CHR 0x0A] @ ''status Code: ''
                           @ format_d (StatusCode resp))))"
proof (intro conjI impI)
  assume "with_headers c req0 = req"
  with assms show "doRequest c req0 =
      (Inl (Error (''error body: '' @ body @ [CHR 0x0A] @ ''status Code: ''
                     @ format_d (StatusCode resp))), [HttpDo req])"
    by (simp add: doRequest_eq exchange_status status_error_def)
next
  assume "snd (invoke lib c k) = evs @ [HttpDo req]"
  then obtain req1 where req: "req = with_headers c req1"
    and run: "fst (invoke lib c k) = respond lib (kind_of k) (exchange c req1)"
    by (rule invoke_reached)
  from assms req have "exchange c req1 = Inl (status_error body (StatusCode resp))"
    by (simp add: exchange_status)
  with run show "fst (invoke lib c k) =
      Returned (zero_shape (kind_of k)) (zero_error_shape (kind_of k))
        (Some (Error (''error body: '' @ body @ [CHR 0x0A] @ ''status Code: ''
                        @ format_d (StatusCode resp))))"
    by (simp add: respond_Inl status_error_def)
next
  assume sent: "snd (DeleteUser lib c userID) = [HttpDo req]"
  show "fst (DeleteUser lib c userID) =
      Some (Error (''error body: '' @ body @ [CHR 0x0A] @ ''status Code: ''
                     @ format_d (StatusCode resp)))"
  proof (cases "NewRequest lib ''DELETE'' (BaseUrl c @ ''Users/'' @ userID) None")
    case (Inl err)
    with sent show ?thesis
      by (simp add: DeleteUser_factor)
  next
    case (Inr req1)
    with sent have "req = with_headers c req1"
      by (simp add: DeleteUser_factor)
    with assms have "exchange c req1 = Inl (status_error body (StatusCode resp))"
      by (simp add: exchange_status)
    with Inr show ?thesis
      by (simp add: DeleteUser_factor status_error_def)
  qed
next
  assume sent: "snd (DeleteGroup lib c groupID) = [HttpDo req]"
  show "fst (DeleteGroup lib c groupID) =
      Some (Error (''error body: '' @ body @ [CHR 0x0A] @ ''status Code: ''
                     @ format_d (StatusCode resp)))"
  proof (cases "NewRequest lib ''DELETE'' (BaseUrl c @ ''Groups/'' @ groupID) None")
    case (Inl err)
    with sent show ?thesis
      by (simp add: DeleteGroup_factor)
  next
    case (Inr req1)
    with sent have "req = with_headers c req1"
      by (simp add: DeleteGroup_factor)
    with assms have "exchange c req1 = Inl (status_error body (StatusCode resp))"
      by (simp add: exchange_status)
    with Inr show ?thesis
      by (simp add: DeleteGroup_factor status_error_def)
  qed
qed

theorem non_2xx_status_short_circuits_witness:
  "doRequest (example_Client 404 ''no such user'')
      \<lparr>Method = ''GET'',
       URL = \<lparr>Scheme = [], Opaque = [], Host = [],
              Path = ''https://scim-provisioning.service.newrelic.com/scim/v2/'' @ ''Users/42'',
              RawPath = [], RawQuery = [], Fragment = []\<rparr>,
       Header = [], Body = None\<rparr> =
     (Inl (Error (''error body: no such user'' @ [CHR 0x0A] @ ''status Code: 404'')),
      [HttpDo (example_Request ''GET'' ''Users/42'' [] None)])
   \<and> fst (invoke example_lib (example_Client 404 ''no such user'') (GetUserByID_call ''42'')) =
     Returned (A_UserResponse zero_UserResponse) (A_UserErrorResponse zero_UserErrorResponse)
       (Some (Error (''error body: no such user'' @ [CHR 0x0A] @ ''status Code: 404'')))
   \<and> fst (DeleteUser example_lib (example_Client 404 ''no such user'') ''42'') =
       Some (Error (''error body: no such user'' @ [CHR 0x0A] @ ''status Code: 404''))
   \<and> fst (DeleteGroup example_lib (example_Client 404 ''no such user'') ''7'') =
       Some (Error (''error body: no such user'' @ [CHR 0x0A] @ ''status Code: 404''))"
proof -
  let ?c = "example_Client 404 ''no such user''"
  let ?resp = "\<lparr>StatusCode = 404, ReadAll_Body = Inr ''no such user''\<rparr>"
  have body: "ReadAll_Body ?resp = Inr ''no such user''"
    and status: "\<not> (200 \<le> StatusCode ?resp \<and> StatusCode ?resp \<le> 299)"
    by simp_all
  note t = non_2xx_status_short_circuits [OF example_Client_simps(3) body status]
  from t [where req = "example_Request ''GET'' ''Users/42'' [] None" and lib = example_lib
        and k = "GetUserByID_call ''42''" and evs = "[]"
        and ?req0.0 = "\<lparr>Method = ''GET'',
          URL = \<lparr>Scheme = [], Opaque = [], Host = [],
            Path = ''https://scim-provisioning.service.newrelic.com/scim/v2/'' @ ''Users/42'',
            RawPath = [], RawQuery = [], Fragment = []\<rparr>,
          Header = [], Body = None\<rparr>"]
    example_with_headers [of 404 "''no such user''" "''GET''" "''Users/42''" "[]" None]
    t [where req = "example_Request ''DELETE'' ''Users/42'' [] None" and lib = example_lib
        and userID = "''42''"]
    t [where req = "example_Request ''DELETE'' ''Groups/7'' [] None" and lib = example_lib
        and groupID = "''7''"]
    example_sent_GetUserByID [of 404 "''no such user''"]
    example_sent_DeleteUser [of 404 "''no such user''"]
    example_sent_DeleteGroup [of 404 "''no such user''"]
  show ?thesis
    by (simp add: format_d_404)
qed

section \<open>The requests that are sent\<close>

lemma example_url_Parse:
  "url_Parse example_lib url = Inr \<lparr>Scheme = [], Opaque = [], Host = [], Path = url,
     RawPath = [], RawQuery = [], Fragment = []\<rparr>"
  by (simp add: example_lib_def example_Parse_def)

text \<open>
  Claim C5. For every User whose schema list is empty and whose time zone is the empty
  string, the body of the POST request that CreateUser sends is the JSON object whose
  \<^verbatim>\<open>schemas\<close> is the list of the one entry \<^verbatim>\<open>urn:ietf:params:scim:schemas:core:2.0:User\<close>
  and whose \<^verbatim>\<open>timezone\<close> is \<^verbatim>\<open>Europe/Istanbul\<close>, the other keys being those of the User.
\<close>

theorem CreateUser_fills_schemas_and_timezone:
  assumes "len (User.Schemas user) = 0"
    and "User.Timezone user = []"
    and "url_Parse lib (BaseUrl c @ ''Users'') = Inr u"
  shows \<open>snd (CreateUser lib c user) =
     [HttpDo \<lparr>Method = ''POST'', URL = u\<lparr>Host := removeEmptyPort (Host u)\<rparr>,
        Header = [(''Authorization'', [''Bearer '' @ ApiToken c]),
                  (''Content-Type'', [''application/json''])],
        Body = Some (''{"schemas":["urn:ietf:params:scim:schemas:core:2.0:User"]''
          @ '',"userName":'' @ json_string (User.UserName user)
          @ '',"name":'' @ Marshal_Name (User.Name user)
          @ '',"emails":'' @ json_array Marshal_Email (User.Emails user)
          @ '',"active":'' @ json_bool (User.Active user)
          @ '',"timezone":"Europe/Istanbul"}'')\<rparr>]\<close>
proof -
  have filled: "User_fill_defaults user =
      user\<lparr>User.Schemas := Some [''urn:ietf:params:scim:schemas:core:2.0:User''],
           User.Timezone := ''Europe/Istanbul''\<rparr>"
    using assms(1,2) by (simp add: User_fill_defaults_def)
  have body: \<open>Marshal_User (User_fill_defaults user) =
      ''{"schemas":["urn:ietf:params:scim:schemas:core:2.0:User"]''
          @ '',"userName":'' @ json_string (User.UserName user)
          @ '',"name":'' @ Marshal_Name (User.Name user)
          @ '',"emails":'' @ json_array Marshal_Email (User.Emails user)
          @ '',"active":'' @ json_bool (User.Active user)
          @ '',"timezone":"Europe/Istanbul"}''\<close>
    unfolding filled by (simp add: Marshal_User_def json_array_def json_literals)
  show ?thesis
    unfolding CreateUser_factor body
    by (simp add: NewRequest_ok [OF assms(3)] valid_methods with_headers_fresh)
qed

lemma example_CreateUser_body:
  \<open>''{"schemas":["urn:ietf:params:scim:schemas:core:2.0:User"]''
      @ '',"userName":'' @ json_string ''jdoe''
      @ '',"name":'' @ Marshal_Name \<lparr>FamilyName = ''Doe'', GivenName = ''John''\<rparr>
      @ '',"emails":'' @ json_array Marshal_Email
           (Some [\<lparr>Primary = True, Email.Value = ''john.doe@example.com''\<rparr>])
      @ '',"active":'' @ json_bool True
      @ '',"timezone":"Europe/Istanbul"}''
    = ''{"schemas":["urn:ietf:params:scim:schemas:core:2.0:User"],"userName":"jdoe","name":{"familyName":"Doe","givenName":"John"},"emails":[{"primary":true,"value":"john.doe@example.com"}],"active":true,"timezone":"Europe/Istanbul"}''\<close>
  by code_simp

theorem CreateUser_fills_schemas_and_timezone_witness:
  \<open>len (User.Schemas \<lparr>User.Schemas = None, UserName = ''jdoe'',
        Name = \<lparr>FamilyName = ''Doe'', GivenName = ''John''\<rparr>,
        Emails = Some [\<lparr>Primary = True, Email.Value = ''john.doe@example.com''\<rparr>],
        Active = True, Timezone = []\<rparr>) = 0
   \<and> snd (CreateUser example_lib (example_Client 201 example_User_body)
        \<lparr>User.Schemas = None, UserName = ''jdoe'',
         Name = \<lparr>FamilyName = ''Doe'', GivenName = ''John''\<rparr>,
         Emails = Some [\<lparr>Primary = True, Email.Value = ''john.doe@example.com''\<rparr>],
         Active = True, Timezone = []\<rparr>) =
     [HttpDo (example_Request ''POST'' ''Users'' []
        (Some ''{"schemas":["urn:ietf:params:scim:schemas:core:2.0:User"],"userName":"jdoe","name":{"familyName":"Doe","givenName":"John"},"emails":[{"primary":true,"value":"john.doe@example.com"}],"active":true,"timezone":"Europe/Istanbul"}''))]\<close>
proof -
  let ?user = "\<lparr>User.Schemas = None, UserName = ''jdoe'',
        Name = \<lparr>FamilyName = ''Doe'', GivenName = ''John''\<rparr>,
        Emails = Some [\<lparr>Primary = True, Email.Value = ''john.doe@example.com''\<rparr>],
        Active = True, Timezone = []\<rparr>"
  have empty: "len (User.Schemas ?user) = 0"
    by (simp add: len_def)
  have tz: "User.Timezone ?user = []"
    by simp
  from CreateUser_fills_schemas_and_timezone [OF empty tz example_url_Parse,
      of "example_Client 201 example_User_body"] example_CreateUser_body empty
  show ?thesis
    by (simp add: example_Request_def example_Client_simps removeEmptyPort_def)
qed

lemma Patch_body_u123:
  \<open>Patch_body ''u-123'' ''Add'' = ''{"schemas":["urn:ietf:params:scim:api:messages:2.0:PatchOp"],"Operations":[{"op":"Add","path":"members","value":[{"value":"u-123"}]}]}''\<close>
  \<open>Patch_body ''u-123'' ''Remove'' = ''{"schemas":["urn:ietf:params:scim:api:messages:2.0:PatchOp"],"Operations":[{"op":"Remove","path":"members","value":[{"value":"u-123"}]}]}''\<close>
  by code_simp+

text \<open>
  Claim C6. AddUserToGroup with the group id \<^verbatim>\<open>g-456\<close> and the user id \<^verbatim>\<open>u-123\<close> sends one
  PATCH request to the URL made of the base URL and \<^verbatim>\<open>Groups/g-456\<close>, whose body is exactly
  the PatchOp document with the one operation \<^verbatim>\<open>Add\<close> on the path \<^verbatim>\<open>members\<close> with the value
  \<^verbatim>\<open>u-123\<close>; RemoveUserToGroup sends the same request with the verb \<^verbatim>\<open>Remove\<close>.
\<close>

theorem AddUserToGroup_sends_patch:
  assumes "url_Parse lib (BaseUrl c @ ''Groups/g-456'') = Inr u"
  shows \<open>snd (AddUserToGroup lib c ''g-456'' ''u-123'') =
     [HttpDo \<lparr>Method = ''PATCH'', URL = u\<lparr>Host := removeEmptyPort (Host u)\<rparr>,
        Header = [(''Authorization'', [''Bearer '' @ ApiToken c]),
                  (''Content-Type'', [''application/json''])],
        Body = Some ''{"schemas":["urn:ietf:params:scim:api:messages:2.0:PatchOp"],"Operations":[{"op":"Add","path":"members","value":[{"value":"u-123"}]}]}''\<rparr>]
   \<and> snd (RemoveUserToGroup lib c ''g-456'' ''u-123'') =
     [HttpDo \<lparr>Method = ''PATCH'', URL = u\<lparr>Host := removeEmptyPort (Host u)\<rparr>,
        Header = [(''Authorization'', [''Bearer '' @ ApiToken c]),
                  (''Content-Type'', [''application/json''])],
        Body = Some ''{"schemas":["urn:ietf:params:scim:api:messages:2.0:PatchOp"],"Operations":[{"op":"Remove","path":"members","value":[{"value":"u-123"}]}]}''\<rparr>]\<close>
  unfolding AddUserToGroup_def RemoveUserToGroup_def GroupMemberOps_factor Patch_body_u123
  using assms by (simp add: NewRequest_ok valid_methods with_headers_fresh)

theorem AddUserToGroup_sends_patch_witness:
  \<open>snd (AddUserToGroup example_lib (example_Client 200 example_User_body) ''g-456'' ''u-123'') =
     [HttpDo (example_Request ''PATCH'' ''Groups/g-456'' []
        (Some ''{"schemas":["urn:ietf:params:scim:api:messages:2.0:PatchOp"],"Operations":[{"op":"Add","path":"members","value":[{"value":"u-123"}]}]}''))]
   \<and> snd (RemoveUserToGroup example_lib (example_Client 200 example_User_body) ''g-456'' ''u-123'') =
     [HttpDo (example_Request ''PATCH'' ''Groups/g-456'' []
        (Some ''{"schemas":["urn:ietf:params:scim:api:messages:2.0:PatchOp"],"Operations":[{"op":"Remove","path":"members","value":[{"value":"u-123"}]}]}''))]\<close>
  using AddUserToGroup_sends_patch [OF example_url_Parse, of "example_Client 200 example_User_body"]
  by (simp add: example_Request_def example_Client_simps removeEmptyPort_def)

lemma Values_Add_last:
  "map_of (Values_Add key v q) key = Some ((case map_of q key of None \<Rightarrow> [] | Some vs \<Rightarrow> vs) @ [v])"
  by (simp add: Values_Add_def update_conv')

text \<open>
  Claim C7. For every user name \<open>s\<close>, GetUserByName adds to the query of its GET request a
  parameter named \<^verbatim>\<open>filter\<close> whose value, before encoding, is \<^verbatim>\<open>userName eq "s"\<close>; for every
  group name \<open>n\<close>, GetGroupByName adds a \<^verbatim>\<open>filter\<close> whose value is \<^verbatim>\<open>displayName eq "n"\<close>.
  The value is the last one under the key \<^verbatim>\<open>filter\<close>, and the query of the request is the
  encoding of these values.
\<close>

theorem search_by_name_filter:
  assumes "url_Parse lib (BaseUrl c @ ''Users'') = Inr u"
    and "url_Parse lib (BaseUrl c @ ''Groups'') = Inr g"
  shows \<open>snd (GetUserByName lib c s) =
     [Println (''userName eq "'' @ s @ ''"''),
      Println (URL_String lib (u\<lparr>Host := removeEmptyPort (Host u),
        RawQuery := Values_Encode (Values_Add ''filter'' (''userName eq "'' @ s @ ''"'')
          (URL_Query lib (u\<lparr>Host := removeEmptyPort (Host u)\<rparr>)))\<rparr>)),
      HttpDo \<lparr>Method = ''GET'',
        URL = u\<lparr>Host := removeEmptyPort (Host u),
          RawQuery := Values_Encode (Values_Add ''filter'' (''userName eq "'' @ s @ ''"'')
            (URL_Query lib (u\<lparr>Host := removeEmptyPort (Host u)\<rparr>)))\<rparr>,
        Header = [(''Authorization'', [''Bearer '' @ ApiToken c]),
                  (''Content-Type'', [''application/json''])],
        Body = None\<rparr>]
   \<and> snd (GetGroupByName lib c n) =
     [Println (''displayName eq "'' @ n @ ''"''),
      Println (URL_String lib (g\<lparr>Host := removeEmptyPort (Host g),
        RawQuery := Values_Encode (Values_Add ''filter'' (''displayName eq "'' @ n @ ''"'')
          (URL_Query lib (g\<lparr>Host := removeEmptyPort (Host g)\<rparr>)))\<rparr>)),
      HttpDo \<lparr>Method = ''GET'',
        URL = g\<lparr>Host := removeEmptyPort (Host g),
          RawQuery := Values_Encode (Values_Add ''filter'' (''displayName eq "'' @ n @ ''"'')
            (URL_Query lib (g\<lparr>Host := removeEmptyPort (Host g)\<rparr>)))\<rparr>,
        Header = [(''Authorization'', [''Bearer '' @ ApiToken c]),
                  (''Content-Type'', [''application/json''])],
        Body = None\<rparr>]
   \<and> (\<exists>vs. map_of (Values_Add ''filter'' (''userName eq "'' @ s @ ''"'') q) ''filter''
          = Some (vs @ [''userName eq "'' @ s @ ''"'']))
   \<and> (\<exists>vs. map_of (Values_Add ''filter'' (''displayName eq "'' @ n @ ''"'') q) ''filter''
          = Some (vs @ [''displayName eq "'' @ n @ ''"'']))\<close>
  unfolding GetUserByName_factor GetGroupByName_factor
  using assms
  by (simp add: NewRequest_ok valid_methods with_headers_fresh filtered_def Values_Add_last
      with_headers_def Header_Set_def canonical_keys)

lemma example_Encode:
  \<open>Values_Encode (Values_Add ''filter'' ''userName eq "jdoe"'' []) = ''filter=userName+eq+%22jdoe%22''\<close>
  \<open>Values_Encode (Values_Add ''filter'' ''displayName eq "Admins"'' []) = ''filter=displayName+eq+%22Admins%22''\<close>
  by code_simp+

theorem search_by_name_filter_witness:
  \<open>snd (GetUserByName example_lib (example_Client 200 example_User_body) ''jdoe'') =
     [Println ''userName eq "jdoe"'',
      Println ''https://scim-provisioning.service.newrelic.com/scim/v2/Users?filter=userName+eq+%22jdoe%22'',
      HttpDo (example_Request ''GET'' ''Users'' ''filter=userName+eq+%22jdoe%22'' None)]
   \<and> snd (GetGroupByName example_lib (example_Client 200 example_User_body) ''Admins'') =
     [Println ''displayName eq "Admins"'',
      Println ''https://scim-provisioning.service.newrelic.com/scim/v2/Groups?filter=displayName+eq+%22Admins%22'',
      HttpDo (example_Request ''GET'' ''Groups'' ''filter=displayName+eq+%22Admins%22'' None)]
   \<and> map_of (Values_Add ''filter'' ''userName eq "jdoe"'' []) ''filter''
       = Some [''userName eq "jdoe"'']
   \<and> map_of (Values_Add ''filter'' ''displayName eq "Admins"'' []) ''filter''
       = Some [''displayName eq "Admins"'']\<close>
proof -
  have q: "URL_Query example_lib v = []" and str: "URL_String example_lib v = URL.Path v @ ''?'' @ RawQuery v" for v
    by (simp_all add: example_lib_def)
  from search_by_name_filter [OF example_url_Parse example_url_Parse,
      of "example_Client 200 example_User_body" "''jdoe''" "''Admins''" "[]"]
    example_Encode
  show ?thesis
    by (simp add: example_Request_def example_Client_simps removeEmptyPort_def q str
        Values_Add_last)
qed

lemma NewRequest_no_json:
  "NewRequest (lib\<lparr>Unmarshal_UserResponse := f1, Unmarshal_UsersResponse := f2,
        Unmarshal_UserErrorResponse := f3, Unmarshal_GroupResponse := f4,
        Unmarshal_GroupsResponse := f5, Unmarshal_GroupErrorResponse := f6\<rparr>) m url body
     = NewRequest lib m url body"
  by (simp add: NewRequest_def Let_def cong: if_cong)

text \<open>
  Claim C8. DeleteUser and DeleteGroup send one DELETE request to the URL made of the base
  URL and \<^verbatim>\<open>Users/{id}\<close> or \<^verbatim>\<open>Groups/{id}\<close>. For a response with a status from 200 to 299
  they return a nil error whatever the body is; when the HTTP client fails, or the body
  cannot be read, they return that error. They never decode the body: replacing every
  \<^verbatim>\<open>json.Unmarshal\<close> of the library by any other function changes nothing.
\<close>

theorem delete_returns_transport_result_only:
  assumes "url_Parse lib (BaseUrl c @ ''Users/'' @ userID) = Inr u"
    and "url_Parse lib (BaseUrl c @ ''Groups/'' @ groupID) = Inr g"
    and "ru = \<lparr>Method = ''DELETE'', URL = u\<lparr>Host := removeEmptyPort (Host u)\<rparr>,
               Header = [(''Authorization'', [''Bearer '' @ ApiToken c]),
                         (''Content-Type'', [''application/json''])],
               Body = None\<rparr>"
    and "rg = \<lparr>Method = ''DELETE'', URL = g\<lparr>Host := removeEmptyPort (Host g)\<rparr>,
               Header = [(''Authorization'', [''Bearer '' @ ApiToken c]),
                         (''Content-Type'', [''application/json''])],
               Body = None\<rparr>"
  shows "snd (DeleteUser lib c userID) = [HttpDo ru]
    \<and> snd (DeleteGroup lib c groupID) = [HttpDo rg]
    \<and> (Do (HttpClient c) ru = Inr resp \<and> ReadAll_Body resp = Inr body
          \<and> 200 \<le> StatusCode resp \<and> StatusCode resp \<le> 299
        \<longrightarrow> fst (DeleteUser lib c userID) = None)
    \<and> (Do (HttpClient c) rg = Inr resp \<and> ReadAll_Body resp = Inr body
          \<and> 200 \<le> StatusCode resp \<and> StatusCode resp \<le> 299
        \<longrightarrow> fst (DeleteGroup lib c groupID) = None)
    \<and> (Do (HttpClient c) ru = Inl err \<longrightarrow> fst (DeleteUser lib c userID) = Some err)
    \<and> (Do (HttpClient c) rg = Inl err \<longrightarrow> fst (DeleteGroup lib c groupID) = Some err)
    \<and> (Do (HttpClient c) ru = Inr resp \<and> ReadAll_Body resp = Inl err
        \<longrightarrow> fst (DeleteUser lib c userID) = Some err)
    \<and> (Do (HttpClient c) rg = Inr resp \<and> ReadAll_Body resp = Inl err
        \<longrightarrow> fst (DeleteGroup lib c groupID) = Some err)
    \<and> DeleteUser (lib\<lparr>Unmarshal_UserResponse := f1, Unmarshal_UsersResponse := f2,
          Unmarshal_UserErrorResponse := f3, Unmarshal_GroupResponse := f4,
          Unmarshal_GroupsResponse := f5, Unmarshal_GroupErrorResponse := f6\<rparr>) c userID
        = DeleteUser lib c userID
    \<and> DeleteGroup (lib\<lparr>Unmarshal_UserResponse := f1, Unmarshal_UsersResponse := f2,
          Unmarshal_UserErrorResponse := f3, Unmarshal_GroupResponse := f4,
          Unmarshal_GroupsResponse := f5, Unmarshal_GroupErrorResponse := f6\<rparr>) c groupID
        = DeleteGroup lib c groupID"
proof -
  have nu: "NewRequest lib ''DELETE'' (BaseUrl c @ ''Users/'' @ userID) None =
      Inr \<lparr>Method = ''DELETE'', URL = u\<lparr>Host := removeEmptyPort (Host u)\<rparr>, Header = [],
           Body = None\<rparr>"
    by (rule NewRequest_ok [OF assms(1) valid_methods(6)])
  have ng: "NewRequest lib ''DELETE'' (BaseUrl c @ ''Groups/'' @ groupID) None =
      Inr \<lparr>Method = ''DELETE'', URL = g\<lparr>Host := removeEmptyPort (Host g)\<rparr>, Header = [],
           Body = None\<rparr>"
    by (rule NewRequest_ok [OF assms(2) valid_methods(6)])
  have du: "DeleteUser lib c userID =
      ((case exchange c \<lparr>Method = ''DELETE'', URL = u\<lparr>Host := removeEmptyPort (Host u)\<rparr>,
           Header = [], Body = None\<rparr> of Inl err \<Rightarrow> Some err | Inr resp \<Rightarrow> None), [HttpDo ru])"
    unfolding DeleteUser_factor nu by (simp add: with_headers_fresh assms(3))
  have dg: "DeleteGroup lib c groupID =
      ((case exchange c \<lparr>Method = ''DELETE'', URL = g\<lparr>Host := removeEmptyPort (Host g)\<rparr>,
           Header = [], Body = None\<rparr> of Inl err \<Rightarrow> Some err | Inr resp \<Rightarrow> None), [HttpDo rg])"
    unfolding DeleteGroup_factor ng by (simp add: with_headers_fresh assms(4))
  have nj: "DeleteUser (lib\<lparr>Unmarshal_UserResponse := f1, Unmarshal_UsersResponse := f2,
          Unmarshal_UserErrorResponse := f3, Unmarshal_GroupResponse := f4,
          Unmarshal_GroupsResponse := f5, Unmarshal_GroupErrorResponse := f6\<rparr>) c userID
        = DeleteUser lib c userID"
    "DeleteGroup (lib\<lparr>Unmarshal_UserResponse := f1, Unmarshal_UsersResponse := f2,
          Unmarshal_UserErrorResponse := f3, Unmarshal_GroupResponse := f4,
          Unmarshal_GroupsResponse := f5, Unmarshal_GroupErrorResponse := f6\<rparr>) c groupID
        = DeleteGroup lib c groupID"
    by (simp_all only: DeleteUser_factor DeleteGroup_factor NewRequest_no_json)
  show ?thesis
    unfolding nj du dg
    by (simp add: exchange_eq with_headers_fresh assms(3,4))
qed

theorem delete_returns_transport_result_only_witness:
  "snd (DeleteUser example_lib (example_Client 204 ''not JSON at all'') ''42'')
     = [HttpDo (example_Request ''DELETE'' ''Users/42'' [] None)]
   \<and> fst (DeleteUser example_lib (example_Client 204 ''not JSON at all'') ''42'') = None
   \<and> snd (DeleteGroup example_lib (example_Client 204 ''not JSON at all'') ''7'')
     = [HttpDo (example_Request ''DELETE'' ''Groups/7'' [] None)]
   \<and> fst (DeleteGroup example_lib (example_Client 204 ''not JSON at all'') ''7'') = None
   \<and> fst (DeleteUser example_lib (NewClient (\<lambda>req. Inl (Error ''connection refused'')) ''secret'') ''42'')
     = Some (Error ''connection refused'')
   \<and> fst (DeleteGroup example_lib (NewClient (\<lambda>req. Inl (Error ''connection refused'')) ''secret'') ''7'')
     = Some (Error ''connection refused'')
   \<and> fst (DeleteUser example_lib
        (NewClient (\<lambda>req. Inr \<lparr>StatusCode = 200, ReadAll_Body = Inl (Error ''unexpected EOF'')\<rparr>)
           ''secret'') ''42'')
     = Some (Error ''unexpected EOF'')
   \<and> fst (DeleteGroup example_lib
        (NewClient (\<lambda>req. Inr \<lparr>StatusCode = 200, ReadAll_Body = Inl (Error ''unexpected EOF'')\<rparr>)
           ''secret'') ''7'')
     = Some (Error ''unexpected EOF'')"
proof -
  note t = delete_returns_transport_result_only [OF example_url_Parse example_url_Parse refl refl,
      where userID = "''42''" and groupID = "''7''"]
  from t [of "example_Client 204 ''not JSON at all''"
        "\<lparr>StatusCode = 204, ReadAll_Body = Inr ''not JSON at all''\<rparr>" "''not JSON at all''"]
    t [of "NewClient (\<lambda>req. Inl (Error ''connection refused'')) ''secret''" _ _
        "Error ''connection refused''"]
    t [of "NewClient (\<lambda>req. Inr \<lparr>StatusCode = 200, ReadAll_Body = Inl (Error ''unexpected EOF'')\<rparr>)
           ''secret''" "\<lparr>StatusCode = 200, ReadAll_Body = Inl (Error ''unexpected EOF'')\<rparr>" _
        "Error ''unexpected EOF''"]
  show ?thesis
    by (simp add: example_Request_def example_Client_simps removeEmptyPort_def NewClient_def)
qed

section \<open>Two constants of the source\<close>

lemma UserType_body_Core:
  \<open>UserType_body Core = ''{"schemas":["urn:ietf:params:scim:schemas:core:2.0:User","urn:ietf:params:scim:schemas:extension:newrelic:2.0:User"],"urn:ietf:params:scim:schemas:extension:newrelic:2.1:User":{"nrUserType":"Core User"}}''\<close>
  by code_simp

text \<open>
  Claim C9. ChangeUserType sends the display string of the user type (\<^verbatim>\<open>Full User\<close>,
  \<^verbatim>\<open>Core User\<close>, \<^verbatim>\<open>Basic User\<close>) as \<^verbatim>\<open>nrUserType\<close>, and the schema list filled from empty is
  the core User URN followed by a New Relic extension URN. The claim says that this
  extension URN is also the key of the attribute in the body. In the source it is not: the
  schema list names \<^verbatim>\<open>...:extension:newrelic:2.0:User\<close> and the key is
  \<^verbatim>\<open>...:extension:newrelic:2.1:User\<close>. The theorem runs ChangeUserType with \<^verbatim>\<open>Core\<close> and shows
  the body that is sent.
\<close>

theorem ChangeUserType_schema_and_key_differ:
  \<open>snd (ChangeUserType example_lib (example_Client 200 example_User_body) ''42'' Core) =
     [HttpDo (example_Request ''PUT'' ''Users/42'' []
        (Some ''{"schemas":["urn:ietf:params:scim:schemas:core:2.0:User","urn:ietf:params:scim:schemas:extension:newrelic:2.0:User"],"urn:ietf:params:scim:schemas:extension:newrelic:2.1:User":{"nrUserType":"Core User"}}''))]
   \<and> UserTypeBody.Schemas (UserTypeBody_fill_defaults zero_UserTypeBody) =
       Some [''urn:ietf:params:scim:schemas:core:2.0:User'',
             ''urn:ietf:params:scim:schemas:extension:newrelic:2.0:User'']
   \<and> ''urn:ietf:params:scim:schemas:extension:newrelic:2.0:User''
       \<noteq> ''urn:ietf:params:scim:schemas:extension:newrelic:2.1:User''
   \<and> UserType_String Full = ''Full User'' \<and> UserType_String Core = ''Core User''
   \<and> UserType_String Basic = ''Basic User''\<close>
  unfolding ChangeUserType_factor UserType_body_Core
  by (simp add: example_NewRequest valid_methods example_Client_simps
      example_with_headers [where path = "''Users/42''", simplified]
      UserTypeBody_fill_defaults_def zero_UserTypeBody_def len_def
      UserType_String_def Full_def Core_def Basic_def)

text \<open>
  Claim C10. The claim says that UserList and GroupList send their request with the method
  GET. The source passes the string \<^verbatim>\<open>Get\<close> to \<^verbatim>\<open>http.NewRequest\<close>, which keeps a method as
  it is given, and HTTP methods are case-sensitive; GetUserByID, next to them, passes
  \<^verbatim>\<open>GET\<close>. The theorem runs the three operations and shows the requests.
\<close>

theorem list_operations_send_method_Get:
  "snd (UserList example_lib (example_Client 200 example_User_body)) =
     [HttpDo (example_Request ''Get'' ''Users'' [] None)]
   \<and> snd (GroupList example_lib (example_Client 200 example_User_body)) =
     [HttpDo (example_Request ''Get'' ''Groups'' [] None)]
   \<and> Method (example_Request ''Get'' ''Users'' [] None) \<noteq> ''GET''
   \<and> snd (GetUserByID example_lib (example_Client 200 example_User_body) ''42'') =
     [HttpDo (example_Request ''GET'' ''Users/42'' [] None)]"
  unfolding UserList_factor GroupList_factor GetUserByID_factor
  by (simp add: example_NewRequest valid_methods example_Client_simps example_Request_def
      example_with_headers [where path = "''Users''", simplified]
      example_with_headers [where path = "''Groups''", simplified]
      example_with_headers [where path = "''Users/42''", simplified])

end
